theory Spec2Isabelle
  imports Complex_Main "HOL-Library.Log_Nat"
begin

section \<open>Values of the parsed payload\<close>

text \<open>
  The payload \<open>parsed_data\<close> is what \<open>JSON.parse\<close> made of the parsing service's answer:
  \<open>null\<close>, booleans, numbers, strings, arrays and objects. A number is a finite IEEE double,
  held here as the rational it denotes (negative zero is not told apart from zero; \<open>NaN\<close> and
  the infinities do not occur in JSON). A string is held as its UTF-8 bytes; an object as its
  properties in enumeration order, with \<open>map_of\<close> for a property read.

  TypeScript's \<open>unknown\<close>, the type of a property read, adds \<open>undefined\<close> (here \<open>None\<close>) for a
  key the object does not have. \<open>ParsedData\<close> is \<open>Record<string, unknown> | null | undefined\<close>:
  \<open>None\<close> stands for both \<open>null\<close> and \<open>undefined\<close>, which the code never tells apart.
\<close>

datatype json =
    JNull
  | JBool bool
  | JNum rat
  | JStr string
  | JArr "json list"
  | JObj "(string \<times> json) list"

type_synonym unknown = "json option"

type_synonym ParsedData = "(string \<times> json) list option"

datatype ParsedKind = Contract | Invoice

datatype error = TypeError

text \<open>\<open>parsedData.key\<close>: reading a property of \<open>null\<close> or \<open>undefined\<close> throws.\<close>

definition getProp :: "ParsedData \<Rightarrow> string \<Rightarrow> error + unknown" where
  "getProp parsedData key =
     (case parsedData of None \<Rightarrow> Inl TypeError | Some props \<Rightarrow> Inr (map_of props key))"

text \<open>An object reference is truthy; \<open>null\<close> and \<open>undefined\<close> are falsy.\<close>

definition truthy :: "ParsedData \<Rightarrow> bool" where
  "truthy parsedData = (parsedData \<noteq> None)"

fun typeof :: "unknown \<Rightarrow> string" where
  "typeof None = ''undefined''"
| "typeof (Some JNull) = ''object''"
| "typeof (Some (JBool b)) = ''boolean''"
| "typeof (Some (JNum x)) = ''number''"
| "typeof (Some (JStr s)) = ''string''"
| "typeof (Some (JArr xs)) = ''object''"
| "typeof (Some (JObj props)) = ''object''"

section \<open>Status badges\<close>

datatype variant = Secondary | Destructive | Outline

record Badge =
  label :: string
  variant :: variant

text \<open>
  The label texts, as UTF-8:
  \<open>label_parsed\<close> U+5DF2 U+89E3 U+6790, \<open>label_partial\<close> U+90E8 U+5206 U+89E3 U+6790,
  \<open>label_failed\<close> U+89E3 U+6790 U+5931 U+8D25,
  \<open>label_unsupported\<close> U+4E0D U+652F U+6301 U+89E3 U+6790,
  \<open>label_unparsed\<close> U+672A U+89E3 U+6790 (the dialog's default),
  \<open>label_not_uploaded\<close> U+672A U+4E0A U+4F20 and
  \<open>label_pending\<close> U+5F85 U+89E3 U+6790 (the list rows' default).
\<close>

definition label_parsed :: string where
  "label_parsed = [CHR 0xE5, CHR 0xB7, CHR 0xB2, CHR 0xE8, CHR 0xA7, CHR 0xA3, CHR 0xE6, CHR 0x9E, CHR 0x90]"

definition label_partial :: string where
  "label_partial = [CHR 0xE9, CHR 0x83, CHR 0xA8, CHR 0xE5, CHR 0x88, CHR 0x86, CHR 0xE8, CHR 0xA7, CHR 0xA3,
     CHR 0xE6, CHR 0x9E, CHR 0x90]"

definition label_failed :: string where
  "label_failed = [CHR 0xE8, CHR 0xA7, CHR 0xA3, CHR 0xE6, CHR 0x9E, CHR 0x90, CHR 0xE5, CHR 0xA4, CHR 0xB1,
     CHR 0xE8, CHR 0xB4, CHR 0xA5]"

definition label_unsupported :: string where
  "label_unsupported = [CHR 0xE4, CHR 0xB8, CHR 0x8D, CHR 0xE6, CHR 0x94, CHR 0xAF, CHR 0xE6, CHR 0x8C, CHR 0x81,
     CHR 0xE8, CHR 0xA7, CHR 0xA3, CHR 0xE6, CHR 0x9E, CHR 0x90]"

definition label_unparsed :: string where
  "label_unparsed = [CHR 0xE6, CHR 0x9C, CHR 0xAA, CHR 0xE8, CHR 0xA7, CHR 0xA3, CHR 0xE6, CHR 0x9E, CHR 0x90]"

definition label_not_uploaded :: string where
  "label_not_uploaded = [CHR 0xE6, CHR 0x9C, CHR 0xAA, CHR 0xE4, CHR 0xB8, CHR 0x8A, CHR 0xE4, CHR 0xBC, CHR 0xA0]"

definition label_pending :: string where
  "label_pending = [CHR 0xE5, CHR 0xBE, CHR 0x85, CHR 0xE8, CHR 0xA7, CHR 0xA3, CHR 0xE6, CHR 0x9E, CHR 0x90]"

text \<open>
  Each of the three classifiers starts with
  \<open>parsedData && typeof parsedData.parse_status === "string" ? parsedData.parse_status : null\<close>
  (the \<open>null\<close> is \<open>None\<close> here) and goes on with a \<open>switch\<close> on the status. The source has
  three copies of this code, and so has the model.
\<close>

text \<open>\<open>getParseStatusBadge\<close> of the detail dialog.\<close>

definition getParseStatusBadge :: "ParsedData \<Rightarrow> error + Badge" where
  "getParseStatusBadge parsedData =
     (case
        (if truthy parsedData then
           (case getProp parsedData ''parse_status'' of
              Inl e \<Rightarrow> Inl e
            | Inr v \<Rightarrow>
                (if typeof v = ''string''
                 then (case getProp parsedData ''parse_status'' of
                         Inl e \<Rightarrow> Inl e
                       | Inr (Some (JStr s)) \<Rightarrow> Inr (Some s)
                       | Inr _ \<Rightarrow> Inr None)
                 else Inr None))
         else Inr None)
      of
        Inl e \<Rightarrow> Inl e
      | Inr status \<Rightarrow>
          (if status = Some ''full'' then Inr \<lparr>label = label_parsed, variant = Secondary\<rparr>
           else if status = Some ''partial'' then Inr \<lparr>label = label_partial, variant = Secondary\<rparr>
           else if status = Some ''failed'' then Inr \<lparr>label = label_failed, variant = Destructive\<rparr>
           else if status = Some ''unsupported'' then Inr \<lparr>label = label_unsupported, variant = Outline\<rparr>
           else Inr \<lparr>label = label_unparsed, variant = Outline\<rparr>))"

text \<open>
  The list rows' entities. Of \<open>ContractPublic\<close> and \<open>InvoicePublic\<close> the badge reads two
  fields: \<open>file_path\<close> (a string, \<open>null\<close> or \<open>undefined\<close>) and \<open>parsed_data\<close>.
\<close>

record ContractPublic =
  contract_file_path :: "string option"
  contract_parsed_data :: ParsedData

record InvoicePublic =
  invoice_file_path :: "string option"
  invoice_parsed_data :: ParsedData

text \<open>\<open>!file_path\<close>: \<open>null\<close>, \<open>undefined\<close> and the empty string are falsy.\<close>

definition falsy_string :: "string option \<Rightarrow> bool" where
  "falsy_string s = (s = None \<or> s = Some [])"

text \<open>\<open>getParseStatusBadge\<close> of \<open>contract-columns.tsx\<close>.\<close>

definition contract_getParseStatusBadge :: "ContractPublic \<Rightarrow> error + Badge" where
  "contract_getParseStatusBadge contract =
     (if falsy_string (contract_file_path contract)
      then Inr \<lparr>label = label_not_uploaded, variant = Outline\<rparr>
      else
        (case
           (if truthy (contract_parsed_data contract) then
              (case getProp (contract_parsed_data contract) ''parse_status'' of
                 Inl e \<Rightarrow> Inl e
               | Inr v \<Rightarrow>
                   (if typeof v = ''string''
                    then (case getProp (contract_parsed_data contract) ''parse_status'' of
                            Inl e \<Rightarrow> Inl e
                          | Inr (Some (JStr s)) \<Rightarrow> Inr (Some s)
                          | Inr _ \<Rightarrow> Inr None)
                    else Inr None))
            else Inr None)
         of
           Inl e \<Rightarrow> Inl e
         | Inr status \<Rightarrow>
             (if status = Some ''full'' then Inr \<lparr>label = label_parsed, variant = Secondary\<rparr>
              else if status = Some ''partial'' then Inr \<lparr>label = label_partial, variant = Secondary\<rparr>
              else if status = Some ''failed'' then Inr \<lparr>label = label_failed, variant = Destructive\<rparr>
              else if status = Some ''unsupported'' then Inr \<lparr>label = label_unsupported, variant = Outline\<rparr>
              else Inr \<lparr>label = label_pending, variant = Outline\<rparr>)))"

text \<open>\<open>getParseStatusBadge\<close> of \<open>invoice-columns.tsx\<close>.\<close>

definition invoice_getParseStatusBadge :: "InvoicePublic \<Rightarrow> error + Badge" where
  "invoice_getParseStatusBadge invoice =
     (if falsy_string (invoice_file_path invoice)
      then Inr \<lparr>label = label_not_uploaded, variant = Outline\<rparr>
      else
        (case
           (if truthy (invoice_parsed_data invoice) then
              (case getProp (invoice_parsed_data invoice) ''parse_status'' of
                 Inl e \<Rightarrow> Inl e
               | Inr v \<Rightarrow>
                   (if typeof v = ''string''
                    then (case getProp (invoice_parsed_data invoice) ''parse_status'' of
                            Inl e \<Rightarrow> Inl e
                          | Inr (Some (JStr s)) \<Rightarrow> Inr (Some s)
                          | Inr _ \<Rightarrow> Inr None)
                    else Inr None))
            else Inr None)
         of
           Inl e \<Rightarrow> Inl e
         | Inr status \<Rightarrow>
             (if status = Some ''full'' then Inr \<lparr>label = label_parsed, variant = Secondary\<rparr>
              else if status = Some ''partial'' then Inr \<lparr>label = label_partial, variant = Secondary\<rparr>
              else if status = Some ''failed'' then Inr \<lparr>label = label_failed, variant = Destructive\<rparr>
              else if status = Some ''unsupported'' then Inr \<lparr>label = label_unsupported, variant = Outline\<rparr>
              else Inr \<lparr>label = label_pending, variant = Outline\<rparr>)))"

section \<open>The platform\<close>

text \<open>
  The code calls built-in functions of the JavaScript platform. Those whose result the
  standards fix are defined below, after ECMA-262 and ECMA-402. Some are not fixed, or are
  fixed in terms of the bits of a double: how a string is parsed as a date is left to the
  implementation for all but the ISO format; the text of a date depends on the locale data
  and the time zone; the digits of a number that is not an integer below \<open>2^53\<close> are the
  shortest that denote the double, and reading a numeral rounds to the nearest double. The
  model takes these as parameters.

  \<^item> \<open>Date_parse s\<close> is the time value of \<open>new Date(s)\<close>, \<open>None\<close> where it is \<open>NaN\<close>;
  \<^item> \<open>toLocaleDateString t\<close> is \<open>date.toLocaleDateString("zh-CN")\<close> of the date of time value \<open>t\<close>;
  \<^item> \<open>shortest_digits x\<close> is \<open>String(x)\<close> for a number that is not a safe integer;
  \<^item> \<open>StringToNumber s\<close> is the number a JSON numeral denotes, \<open>None\<close> for a text that is
    no JSON numeral.
\<close>

record platform =
  Date_parse :: "string \<Rightarrow> int option"
  toLocaleDateString :: "int \<Rightarrow> string"
  shortest_digits :: "rat \<Rightarrow> string"
  StringToNumber :: "string \<Rightarrow> rat option"

text \<open>
  The model is stricter than the platform: an operation applied to a value of another type
  than the one it is written for is the error \<open>TypeError\<close>, also where JavaScript would
  coerce the value. The guards of the code are what keeps these branches from being taken.
\<close>

definition as_string :: "unknown \<Rightarrow> error + string" where
  "as_string v = (case v of Some (JStr s) \<Rightarrow> Inr s | _ \<Rightarrow> Inl TypeError)"

definition as_number :: "unknown \<Rightarrow> error + rat" where
  "as_number v = (case v of Some (JNum x) \<Rightarrow> Inr x | _ \<Rightarrow> Inl TypeError)"

definition as_array :: "unknown \<Rightarrow> error + json list" where
  "as_array v = (case v of Some (JArr xs) \<Rightarrow> Inr xs | _ \<Rightarrow> Inl TypeError)"

definition as_object :: "unknown \<Rightarrow> error + json" where
  "as_object v = (case v of Some j \<Rightarrow> Inr j | None \<Rightarrow> Inl TypeError)"

definition Array_isArray :: "unknown \<Rightarrow> bool" where
  "Array_isArray v = (case v of Some (JArr xs) \<Rightarrow> True | _ \<Rightarrow> False)"

text \<open>\<open>ToBoolean\<close>: \<open>undefined\<close>, \<open>null\<close>, \<open>false\<close>, zero and the empty string are falsy.\<close>

fun ToBoolean :: "unknown \<Rightarrow> bool" where
  "ToBoolean None = False"
| "ToBoolean (Some JNull) = False"
| "ToBoolean (Some (JBool b)) = b"
| "ToBoolean (Some (JNum x)) = (x \<noteq> 0)"
| "ToBoolean (Some (JStr s)) = (s \<noteq> [])"
| "ToBoolean (Some (JArr xs)) = True"
| "ToBoolean (Some (JObj props)) = True"

subsection \<open>Numbers\<close>

definition digit_char :: "nat \<Rightarrow> char" where
  "digit_char d = ''0123456789abcdef'' ! d"

fun show_nat :: "nat \<Rightarrow> string" where
  "show_nat n = (if n < 10 then [digit_char n] else show_nat (n div 10) @ [digit_char (n mod 10)])"

declare show_nat.simps [simp del]

text \<open>\<open>Number.isSafeInteger\<close>: an integer of magnitude at most \<open>2^53 - 1\<close>.\<close>

definition is_safe_integer :: "rat \<Rightarrow> bool" where
  "is_safe_integer x = (x = of_int \<lfloor>x\<rfloor> \<and> \<bar>x\<bar> < 2 ^ 53)"

text \<open>
  \<open>Number::toString\<close>, radix 10. For a safe integer the shortest digit string that denotes
  the double is its decimal numeral.
\<close>

definition Number_toString :: "platform \<Rightarrow> rat \<Rightarrow> string" where
  "Number_toString pf x =
     (if is_safe_integer x
      then (if x < 0 then ''-'' else []) @ show_nat (nat \<lfloor>\<bar>x\<bar>\<rfloor>)
      else shortest_digits pf x)"

text \<open>
  Rounding a real to the nearest double, ties to even: 53 bits of precision, the least
  exponent that of the subnormal numbers. (Overflow to infinity is left out: the code
  rounds only \<open>value + 1\<close> for a double \<open>value\<close>, which never overflows.)
\<close>

definition binary_exponent :: "rat \<Rightarrow> int" where
  "binary_exponent a =
     (if 1 \<le> a then int (floorlog 2 (nat \<lfloor>a\<rfloor>)) - 1
      else - int (floorlog 2 (nat (\<lceil>1 / a\<rceil> - 1))))"

definition pow2 :: "int \<Rightarrow> rat" where
  "pow2 e = (if 0 \<le> e then 2 ^ nat e else 1 / 2 ^ nat (- e))"

definition round_half_even :: "rat \<Rightarrow> int" where
  "round_half_even q =
     (let f = \<lfloor>q\<rfloor>; d = q - of_int f
      in if d < 1 / 2 then f else if 1 / 2 < d then f + 1 else if even f then f else f + 1)"

definition round_to_double :: "rat \<Rightarrow> rat" where
  "round_to_double x =
     (if x = 0 then 0
      else (let a = \<bar>x\<bar>;
                e = max (binary_exponent a - 52) (- 1074);
                m = round_half_even (a / pow2 e)
            in sgn x * of_int m * pow2 e))"

text \<open>\<open>value + 1\<close> on an element of the payload.\<close>

definition plus_one :: "json \<Rightarrow> error + json" where
  "plus_one value = (case value of JNum x \<Rightarrow> Inr (JNum (round_to_double (x + 1))) | _ \<Rightarrow> Inl TypeError)"

text \<open>
  \<open>x.toLocaleString("zh-CN", { minimumFractionDigits: 2 })\<close>. The number format is the
  decimal style of the locale \<open>zh-CN\<close>: groups of three digits separated by a comma, a full
  stop before the fraction, a hyphen-minus for a negative number. With
  \<open>minimumFractionDigits\<close> 2 the default \<open>maximumFractionDigits\<close> is \<open>max 2 3 = 3\<close>: the
  magnitude is rounded to three fraction digits, a tie away from zero, and a zero in the
  third place is dropped. The rounding is the one of ECMA-402, on the exact value of the
  double.
\<close>

fun group3 :: "string \<Rightarrow> string" where
  "group3 ds =
     (if length ds \<le> 3 then ds
      else group3 (take (length ds - 3) ds) @ '','' @ drop (length ds - 3) ds)"

declare group3.simps [simp del]

definition fraction_digits :: "nat \<Rightarrow> string" where
  "fraction_digits f =
     (let ds = [digit_char (f div 100), digit_char (f div 10 mod 10), digit_char (f mod 10)]
      in if f mod 10 = 0 then take 2 ds else ds)"

definition Number_toLocaleString :: "rat \<Rightarrow> string" where
  "Number_toLocaleString x =
     (let n = nat \<lfloor>\<bar>x\<bar> * 1000 + 1 / 2\<rfloor>
      in (if x < 0 then ''-'' else []) @ group3 (show_nat (n div 1000)) @ ''.''
           @ fraction_digits (n mod 1000))"


subsection \<open>Strings of values\<close>

fun join_strings :: "string \<Rightarrow> string list \<Rightarrow> string" where
  "join_strings sep [] = []"
| "join_strings sep [s] = s"
| "join_strings sep (s # t # ss) = s @ sep @ join_strings sep (t # ss)"

text \<open>The elements of an array literal or of a \<open>map\<close> are evaluated in order; the first throw ends it.\<close>

fun collect :: "(error + 'a) list \<Rightarrow> error + 'a list" where
  "collect [] = Inr []"
| "collect (r # rs) =
     (case r of
        Inl e \<Rightarrow> Inl e
      | Inr x \<Rightarrow> (case collect rs of Inl e \<Rightarrow> Inl e | Inr xs \<Rightarrow> Inr (x # xs)))"

text \<open>
  \<open>ToString\<close> of a value, and with it \<open>String(value)\<close> and the elements of a \<open>join\<close>. An
  array is its elements joined by a comma, \<open>null\<close> elements as the empty string. An object
  is converted by \<open>OrdinaryToPrimitive\<close>, which calls its \<open>toString\<close> and then its \<open>valueOf\<close>
  if they are functions. An object of the payload inherits \<open>Object.prototype.toString\<close>,
  which gives \<open>[object Object]\<close>, unless it has a property \<open>toString\<close> of its own: that
  property holds a value of the payload, which is no function, \<open>valueOf\<close> is no function
  either or returns the object itself, and the conversion throws a \<open>TypeError\<close>.
\<close>

fun ToString_json :: "platform \<Rightarrow> json \<Rightarrow> error + string" where
  "ToString_json pf JNull = Inr ''null''"
| "ToString_json pf (JBool b) = Inr (if b then ''true'' else ''false'')"
| "ToString_json pf (JNum x) = Inr (Number_toString pf x)"
| "ToString_json pf (JStr s) = Inr s"
| "ToString_json pf (JArr xs) =
     (case collect (map (\<lambda>e. if e = JNull then Inr [] else ToString_json pf e) xs) of
        Inl e \<Rightarrow> Inl e
      | Inr ss \<Rightarrow> Inr (join_strings '','' ss))"
| "ToString_json pf (JObj props) =
     (if map_of props ''toString'' = None then Inr ''[object Object]'' else Inl TypeError)"

definition String :: "platform \<Rightarrow> unknown \<Rightarrow> error + string" where
  "String pf v = (case v of None \<Rightarrow> Inr ''undefined'' | Some j \<Rightarrow> ToString_json pf j)"

text \<open>\<open>Array.prototype.join\<close> with a separator: the elements are converted from left to right.\<close>

definition Array_join :: "platform \<Rightarrow> string \<Rightarrow> json list \<Rightarrow> error + string" where
  "Array_join pf sep xs =
     (case collect (map (\<lambda>e. if e = JNull then Inr [] else ToString_json pf e) xs) of
        Inl e \<Rightarrow> Inl e
      | Inr ss \<Rightarrow> Inr (join_strings sep ss))"

text \<open>
  The values whose conversion to a string does not throw, and the values \<open>formatText\<close> can
  format: all but the arrays with an element that cannot be converted.
\<close>

fun stringable :: "json \<Rightarrow> bool" where
  "stringable (JArr xs) = list_all stringable xs"
| "stringable (JObj props) = (map_of props ''toString'' = None)"
| "stringable v = True"

definition formattable :: "unknown \<Rightarrow> bool" where
  "formattable v = (case v of Some (JArr xs) \<Rightarrow> list_all stringable xs | _ \<Rightarrow> True)"

subsection \<open>\<open>JSON.stringify\<close>\<close>

text \<open>
  \<open>QuoteJSONString\<close>: the quotation mark, the backslash and the control characters are
  escaped; every other character stands for itself.
\<close>

definition quote_char :: "char \<Rightarrow> string" where
  "quote_char c =
     (if c = CHR 0x08 then [CHR 0x5C, CHR ''b'']
      else if c = CHR 0x09 then [CHR 0x5C, CHR ''t'']
      else if c = CHR 0x0A then [CHR 0x5C, CHR ''n'']
      else if c = CHR 0x0C then [CHR 0x5C, CHR ''f'']
      else if c = CHR 0x0D then [CHR 0x5C, CHR ''r'']
      else if c = CHR 0x22 then [CHR 0x5C, CHR 0x22]
      else if c = CHR 0x5C then [CHR 0x5C, CHR 0x5C]
      else if (of_char c :: nat) < 32
        then [CHR 0x5C, CHR ''u'', CHR ''0'', CHR ''0'',
              digit_char (of_char c div 16), digit_char (of_char c mod 16)]
      else [c])"

definition QuoteJSONString :: "string \<Rightarrow> string" where
  "QuoteJSONString s = [CHR 0x22] @ concat (map quote_char s) @ [CHR 0x22]"

text \<open>
  \<open>SerializeJSONProperty\<close> with the gap and the current indentation: \<open>JSON.stringify(value)\<close>
  has the empty gap, \<open>JSON.stringify(value, null, 2)\<close> a gap of two spaces.
\<close>

fun SerializeJSON :: "platform \<Rightarrow> string \<Rightarrow> string \<Rightarrow> json \<Rightarrow> string" where
  "SerializeJSON pf gap indent JNull = ''null''"
| "SerializeJSON pf gap indent (JBool b) = (if b then ''true'' else ''false'')"
| "SerializeJSON pf gap indent (JNum x) = Number_toString pf x"
| "SerializeJSON pf gap indent (JStr s) = QuoteJSONString s"
| "SerializeJSON pf gap indent (JArr xs) =
     (if xs = [] then ''[]''
      else if gap = []
        then ''['' @ join_strings '','' (map (SerializeJSON pf gap (indent @ gap)) xs) @ '']''
      else ''['' @ [CHR 0x0A] @ (indent @ gap)
           @ join_strings ('','' @ [CHR 0x0A] @ (indent @ gap))
               (map (SerializeJSON pf gap (indent @ gap)) xs)
           @ [CHR 0x0A] @ indent @ '']'')"
| "SerializeJSON pf gap indent (JObj props) =
     (if props = [] then ''{}''
      else if gap = []
        then ''{'' @ join_strings '',''
               (map (\<lambda>kv. QuoteJSONString (fst kv) @ '':''
                       @ SerializeJSON pf gap (indent @ gap) (snd kv)) props) @ ''}''
      else ''{'' @ [CHR 0x0A] @ (indent @ gap)
           @ join_strings ('','' @ [CHR 0x0A] @ (indent @ gap))
               (map (\<lambda>kv. QuoteJSONString (fst kv) @ '': ''
                       @ SerializeJSON pf gap (indent @ gap) (snd kv)) props)
           @ [CHR 0x0A] @ indent @ ''}'')"

definition JSON_stringify :: "platform \<Rightarrow> json \<Rightarrow> string" where
  "JSON_stringify pf value = SerializeJSON pf [] [] value"

definition JSON_stringify_2 :: "platform \<Rightarrow> json \<Rightarrow> string" where
  "JSON_stringify_2 pf value = SerializeJSON pf ''  '' [] value"

subsection \<open>\<open>JSON.parse\<close>\<close>
















fun fuel_of :: "json \<Rightarrow> nat" where
  "fuel_of (JArr xs) = Suc (sum_list (map (\<lambda>x. Suc (fuel_of x)) xs))"
| "fuel_of (JObj props) = Suc (sum_list (map (\<lambda>kv. Suc (fuel_of (snd kv))) props))"
| "fuel_of v = 1"

section \<open>The formatters\<close>

text \<open>
  The texts of the summary rows, as UTF-8. Contract:
  \<open>lbl_party_a\<close> U+7532 U+65B9, \<open>lbl_party_b\<close> U+4E59 U+65B9,
  \<open>lbl_contract_number\<close> U+5408 U+540C U+7F16 U+53F7, \<open>lbl_sign_date\<close> U+7B7E U+7EA6 U+65E5 U+671F,
  \<open>lbl_effective_date\<close> U+751F U+6548 U+65E5 U+671F, \<open>lbl_expiry_date\<close> U+5230 U+671F U+65E5 U+671F,
  \<open>lbl_contract_amount\<close> U+5408 U+540C U+91D1 U+989D, \<open>lbl_stamp_pages\<close> U+76D6 U+7AE0 U+9875.
  Invoice:
  \<open>lbl_invoice_number\<close> U+53D1 U+7968 U+53F7 U+7801, \<open>lbl_invoice_code\<close> U+53D1 U+7968 U+4EE3 U+7801,
  \<open>lbl_invoice_date\<close> U+5F00 U+7968 U+65E5 U+671F, \<open>lbl_seller\<close> U+9500 U+552E U+65B9,
  \<open>lbl_buyer\<close> U+8D2D U+4E70 U+65B9, \<open>lbl_invoice_amount\<close> U+53D1 U+7968 U+91D1 U+989D,
  \<open>lbl_tax_amount\<close> U+7A0E U+989D.
  The message shown without parse information, \<open>no_parse_info\<close>, is
  U+6682 U+65E0 U+89E3 U+6790 U+4FE1 U+606F; the currency glyph \<open>yen_sign\<close> is U+00A5.
\<close>

definition lbl_party_a :: string where
  "lbl_party_a = [CHR 0xE7, CHR 0x94, CHR 0xB2, CHR 0xE6, CHR 0x96, CHR 0xB9]"

definition lbl_party_b :: string where
  "lbl_party_b = [CHR 0xE4, CHR 0xB9, CHR 0x99, CHR 0xE6, CHR 0x96, CHR 0xB9]"

definition lbl_contract_number :: string where
  "lbl_contract_number = [CHR 0xE5, CHR 0x90, CHR 0x88, CHR 0xE5, CHR 0x90, CHR 0x8C, CHR 0xE7,
     CHR 0xBC, CHR 0x96, CHR 0xE5, CHR 0x8F, CHR 0xB7]"

definition lbl_sign_date :: string where
  "lbl_sign_date = [CHR 0xE7, CHR 0xAD, CHR 0xBE, CHR 0xE7, CHR 0xBA, CHR 0xA6, CHR 0xE6,
     CHR 0x97, CHR 0xA5, CHR 0xE6, CHR 0x9C, CHR 0x9F]"

definition lbl_effective_date :: string where
  "lbl_effective_date = [CHR 0xE7, CHR 0x94, CHR 0x9F, CHR 0xE6, CHR 0x95, CHR 0x88, CHR 0xE6,
     CHR 0x97, CHR 0xA5, CHR 0xE6, CHR 0x9C, CHR 0x9F]"

definition lbl_expiry_date :: string where
  "lbl_expiry_date = [CHR 0xE5, CHR 0x88, CHR 0xB0, CHR 0xE6, CHR 0x9C, CHR 0x9F, CHR 0xE6,
     CHR 0x97, CHR 0xA5, CHR 0xE6, CHR 0x9C, CHR 0x9F]"

definition lbl_contract_amount :: string where
  "lbl_contract_amount = [CHR 0xE5, CHR 0x90, CHR 0x88, CHR 0xE5, CHR 0x90, CHR 0x8C, CHR 0xE9,
     CHR 0x87, CHR 0x91, CHR 0xE9, CHR 0xA2, CHR 0x9D]"

definition lbl_stamp_pages :: string where
  "lbl_stamp_pages = [CHR 0xE7, CHR 0x9B, CHR 0x96, CHR 0xE7, CHR 0xAB, CHR 0xA0, CHR 0xE9,
     CHR 0xA1, CHR 0xB5]"

definition lbl_invoice_number :: string where
  "lbl_invoice_number = [CHR 0xE5, CHR 0x8F, CHR 0x91, CHR 0xE7, CHR 0xA5, CHR 0xA8, CHR 0xE5,
     CHR 0x8F, CHR 0xB7, CHR 0xE7, CHR 0xA0, CHR 0x81]"

definition lbl_invoice_code :: string where
  "lbl_invoice_code = [CHR 0xE5, CHR 0x8F, CHR 0x91, CHR 0xE7, CHR 0xA5, CHR 0xA8, CHR 0xE4,
     CHR 0xBB, CHR 0xA3, CHR 0xE7, CHR 0xA0, CHR 0x81]"

definition lbl_invoice_date :: string where
  "lbl_invoice_date = [CHR 0xE5, CHR 0xBC, CHR 0x80, CHR 0xE7, CHR 0xA5, CHR 0xA8, CHR 0xE6,
     CHR 0x97, CHR 0xA5, CHR 0xE6, CHR 0x9C, CHR 0x9F]"

definition lbl_seller :: string where
  "lbl_seller = [CHR 0xE9, CHR 0x94, CHR 0x80, CHR 0xE5, CHR 0x94, CHR 0xAE, CHR 0xE6, CHR 0x96,
     CHR 0xB9]"

definition lbl_buyer :: string where
  "lbl_buyer = [CHR 0xE8, CHR 0xB4, CHR 0xAD, CHR 0xE4, CHR 0xB9, CHR 0xB0, CHR 0xE6, CHR 0x96,
     CHR 0xB9]"

definition lbl_invoice_amount :: string where
  "lbl_invoice_amount = [CHR 0xE5, CHR 0x8F, CHR 0x91, CHR 0xE7, CHR 0xA5, CHR 0xA8, CHR 0xE9,
     CHR 0x87, CHR 0x91, CHR 0xE9, CHR 0xA2, CHR 0x9D]"

definition lbl_tax_amount :: string where
  "lbl_tax_amount = [CHR 0xE7, CHR 0xA8, CHR 0x8E, CHR 0xE9, CHR 0xA2, CHR 0x9D]"

definition no_parse_info :: string where
  "no_parse_info = [CHR 0xE6, CHR 0x9A, CHR 0x82, CHR 0xE6, CHR 0x97, CHR 0xA0, CHR 0xE8,
     CHR 0xA7, CHR 0xA3, CHR 0xE6, CHR 0x9E, CHR 0x90, CHR 0xE4, CHR 0xBF, CHR 0xA1, CHR 0xE6,
     CHR 0x81, CHR 0xAF]"

definition yen_sign :: string where
  "yen_sign = [CHR 0xC2, CHR 0xA5]"
text \<open>\<open>formatDate\<close>. The guard is \<open>typeof value !== "string" || !value\<close>, evaluated left to right.\<close>

definition formatDate :: "platform \<Rightarrow> unknown \<Rightarrow> error + string" where
  "formatDate pf value =
     (if typeof value \<noteq> ''string'' then Inr ''-''
      else if \<not> ToBoolean value then Inr ''-''
      else (case as_string value of
              Inl e \<Rightarrow> Inl e
            | Inr s \<Rightarrow>
                (case Date_parse pf s of
                   None \<Rightarrow> Inr s
                 | Some t \<Rightarrow> Inr (toLocaleDateString pf t))))"

text \<open>\<open>formatMoney\<close>.\<close>

definition formatMoney :: "unknown \<Rightarrow> error + string" where
  "formatMoney value =
     (if typeof value \<noteq> ''number'' then Inr ''-''
      else (case as_number value of
              Inl e \<Rightarrow> Inl e
            | Inr x \<Rightarrow> Inr (yen_sign @ Number_toLocaleString x)))"

text \<open>\<open>formatText\<close>.\<close>

definition formatText :: "platform \<Rightarrow> unknown \<Rightarrow> error + string" where
  "formatText pf value =
     (if value = Some JNull \<or> value = None \<or> value = Some (JStr []) then Inr ''-''
      else if Array_isArray value
        then (case as_array value of
                Inl e \<Rightarrow> Inl e
              | Inr xs \<Rightarrow> Array_join pf '', '' xs)
      else if typeof value = ''object''
        then (case as_object value of
                Inl e \<Rightarrow> Inl e
              | Inr j \<Rightarrow> Inr (JSON_stringify pf j))
      else String pf value)"

section \<open>The summary rows\<close>

record SummaryRow =
  row_label :: string
  row_value :: string

text \<open>A row \<open>{ label: l, value: format(parsedData.key) }\<close>.\<close>

definition row :: "string \<Rightarrow> (unknown \<Rightarrow> error + string) \<Rightarrow> ParsedData \<Rightarrow> string \<Rightarrow> error + SummaryRow" where
  "row l format parsedData key =
     (case getProp parsedData key of
        Inl e \<Rightarrow> Inl e
      | Inr v \<Rightarrow>
          (case format v of
             Inl e \<Rightarrow> Inl e
           | Inr s \<Rightarrow> Inr \<lparr>row_label = l, row_value = s\<rparr>))"

text \<open>
  The constant \<open>stampPages\<close> of \<open>getSummaryRows\<close>: the numbers of the array \<open>stamp_pages\<close>, each
  plus one, joined; \<open>"-"\<close> when \<open>stamp_pages\<close> is not an array.
\<close>

definition stampPages :: "platform \<Rightarrow> ParsedData \<Rightarrow> error + string" where
  "stampPages pf parsedData =
     (case getProp parsedData ''stamp_pages'' of
        Inl e \<Rightarrow> Inl e
      | Inr stamp_pages \<Rightarrow>
          (if Array_isArray stamp_pages
           then (case as_array stamp_pages of
                   Inl e \<Rightarrow> Inl e
                 | Inr xs \<Rightarrow>
                     (case collect (map plus_one
                             (filter (\<lambda>value. typeof (Some value) = ''number'') xs)) of
                        Inl e \<Rightarrow> Inl e
                      | Inr ys \<Rightarrow> Array_join pf '', '' ys))
           else Inr ''-''))"

text \<open>\<open>getSummaryRows\<close>. The last contract row is \<open>stampPages || "-"\<close>.\<close>

definition getSummaryRows :: "platform \<Rightarrow> ParsedKind \<Rightarrow> ParsedData \<Rightarrow> error + SummaryRow list" where
  "getSummaryRows pf kind parsedData =
     (if \<not> truthy parsedData then Inr []
      else if kind = Contract then
        (case stampPages pf parsedData of
           Inl e \<Rightarrow> Inl e
         | Inr sp \<Rightarrow>
             collect
               [row lbl_party_a (formatText pf) parsedData ''party_a'',
                row lbl_party_b (formatText pf) parsedData ''party_b'',
                row lbl_contract_number (formatText pf) parsedData ''contract_number'',
                row lbl_sign_date (formatDate pf) parsedData ''sign_date'',
                row lbl_effective_date (formatDate pf) parsedData ''effective_date'',
                row lbl_expiry_date (formatDate pf) parsedData ''expiry_date'',
                row lbl_contract_amount formatMoney parsedData ''amount'',
                Inr \<lparr>row_label = lbl_stamp_pages, row_value = (if sp = [] then ''-'' else sp)\<rparr>])
      else
        collect
          [row lbl_invoice_number (formatText pf) parsedData ''invoice_number'',
           row lbl_invoice_code (formatText pf) parsedData ''invoice_code'',
           row lbl_invoice_date (formatDate pf) parsedData ''invoice_date'',
           row lbl_seller (formatText pf) parsedData ''seller'',
           row lbl_buyer (formatText pf) parsedData ''buyer'',
           row lbl_invoice_amount formatMoney parsedData ''amount'',
           row lbl_tax_amount formatMoney parsedData ''tax_amount''])"

text \<open>The fields that \<open>getSummaryRows\<close> passes to \<open>formatText\<close>.\<close>

fun text_fields :: "ParsedKind \<Rightarrow> string list" where
  "text_fields Contract = [''party_a'', ''party_b'', ''contract_number'']"
| "text_fields Invoice = [''invoice_number'', ''invoice_code'', ''seller'', ''buyer'']"

section \<open>Message, raw text, JSON text and the dialog\<close>

text \<open>
  \<open>getParseMessage\<close> and \<open>getRawText\<close>. The guard is
  \<open>!parsedData || typeof parsedData.key !== "string"\<close>, evaluated left to right.
\<close>

definition getParseMessage :: "ParsedData \<Rightarrow> error + string" where
  "getParseMessage parsedData =
     (if \<not> truthy parsedData then Inr no_parse_info
      else (case getProp parsedData ''parse_message'' of
              Inl e \<Rightarrow> Inl e
            | Inr v \<Rightarrow>
                (if typeof v \<noteq> ''string'' then Inr no_parse_info
                 else (case getProp parsedData ''parse_message'' of
                         Inl e \<Rightarrow> Inl e
                       | Inr m \<Rightarrow> as_string m))))"

definition getRawText :: "ParsedData \<Rightarrow> error + string" where
  "getRawText parsedData =
     (if \<not> truthy parsedData then Inr []
      else (case getProp parsedData ''raw_text'' of
              Inl e \<Rightarrow> Inl e
            | Inr v \<Rightarrow>
                (if typeof v \<noteq> ''string'' then Inr []
                 else (case getProp parsedData ''raw_text'' of
                         Inl e \<Rightarrow> Inl e
                       | Inr t \<Rightarrow> as_string t))))"

text \<open>\<open>getJsonText\<close>: \<open>JSON.stringify(parsedData, null, 2)\<close> of a payload that is there.\<close>

definition getJsonText :: "platform \<Rightarrow> ParsedData \<Rightarrow> error + string" where
  "getJsonText pf parsedData =
     (if \<not> truthy parsedData then Inr []
      else (case parsedData of
              None \<Rightarrow> Inl TypeError
            | Some props \<Rightarrow> Inr (JSON_stringify_2 pf (JObj props))))"

text \<open>
  What the component \<open>ParsedDataDialog\<close> computes from its properties \<open>kind\<close> and \<open>parsedData\<close>
  before it renders: the badge, the summary rows, the message, the raw text and the JSON
  text, in the order of the source.
\<close>

record ParseResultView =
  badge :: Badge
  summaryRows :: "SummaryRow list"
  parseMessage :: string
  rawText :: string
  rawJson :: string

definition ParsedDataDialog :: "platform \<Rightarrow> ParsedKind \<Rightarrow> ParsedData \<Rightarrow> error + ParseResultView" where
  "ParsedDataDialog pf kind parsedData =
     (case getParseStatusBadge parsedData of
        Inl e \<Rightarrow> Inl e
      | Inr b \<Rightarrow>
     (case getSummaryRows pf kind parsedData of
        Inl e \<Rightarrow> Inl e
      | Inr rows \<Rightarrow>
     (case getParseMessage parsedData of
        Inl e \<Rightarrow> Inl e
      | Inr m \<Rightarrow>
     (case getRawText parsedData of
        Inl e \<Rightarrow> Inl e
      | Inr t \<Rightarrow>
     (case getJsonText pf parsedData of
        Inl e \<Rightarrow> Inl e
      | Inr j \<Rightarrow>
          Inr \<lparr>badge = b, summaryRows = rows, parseMessage = m, rawText = t, rawJson = j\<rparr>)))))"

section \<open>The five outcomes\<close>

text \<open>
  The specification's closed enumeration of outcomes and its classification, written from
  its words: an absent payload is \<open>Unparsed\<close>; a \<open>parse_status\<close> field that is a string and
  one of the four status words gives the outcome of that word; anything else is \<open>Unparsed\<close>.
\<close>

datatype ParseOutcome = Unparsed | Full | Partial | Failed | Unsupported

definition classify :: "ParsedData \<Rightarrow> ParseOutcome" where
  "classify parsedData =
     (case parsedData of
        None \<Rightarrow> Unparsed
      | Some props \<Rightarrow>
          (case map_of props ''parse_status'' of
             Some (JStr s) \<Rightarrow>
               (if s = ''full'' then Full
                else if s = ''partial'' then Partial
                else if s = ''failed'' then Failed
                else if s = ''unsupported'' then Unsupported
                else Unparsed)
           | _ \<Rightarrow> Unparsed))"

text \<open>The badge each classifier returns for an outcome, read off its \<open>return\<close> statements.\<close>

fun dialog_badge :: "ParseOutcome \<Rightarrow> Badge" where
  "dialog_badge Full = \<lparr>label = label_parsed, variant = Secondary\<rparr>"
| "dialog_badge Partial = \<lparr>label = label_partial, variant = Secondary\<rparr>"
| "dialog_badge Failed = \<lparr>label = label_failed, variant = Destructive\<rparr>"
| "dialog_badge Unsupported = \<lparr>label = label_unsupported, variant = Outline\<rparr>"
| "dialog_badge Unparsed = \<lparr>label = label_unparsed, variant = Outline\<rparr>"

fun list_badge :: "ParseOutcome \<Rightarrow> Badge" where
  "list_badge Full = \<lparr>label = label_parsed, variant = Secondary\<rparr>"
| "list_badge Partial = \<lparr>label = label_partial, variant = Secondary\<rparr>"
| "list_badge Failed = \<lparr>label = label_failed, variant = Destructive\<rparr>"
| "list_badge Unsupported = \<lparr>label = label_unsupported, variant = Outline\<rparr>"
| "list_badge Unparsed = \<lparr>label = label_pending, variant = Outline\<rparr>"

section \<open>Properties\<close>

subsection \<open>The classifiers\<close>

lemmas label_defs =
  label_parsed_def label_partial_def label_failed_def label_unsupported_def
  label_unparsed_def label_not_uploaded_def label_pending_def

lemma dialog_badge_classify:
  "getParseStatusBadge parsedData = Inr (dialog_badge (classify parsedData))"
proof (cases parsedData)
  case None
  then show ?thesis by (simp add: getParseStatusBadge_def truthy_def classify_def)
next
  case (Some props)
  show ?thesis
  proof (cases "map_of props ''parse_status''")
    case None
    with Some show ?thesis
      by (simp add: getParseStatusBadge_def truthy_def getProp_def classify_def)
  next
    case (Some v)
    with \<open>parsedData = Some props\<close> show ?thesis
      by (cases v) (simp_all add: getParseStatusBadge_def truthy_def getProp_def classify_def)
  qed
qed

lemma contract_badge_classify:
  "contract_getParseStatusBadge contract =
     Inr (if falsy_string (contract_file_path contract)
          then \<lparr>label = label_not_uploaded, variant = Outline\<rparr>
          else list_badge (classify (contract_parsed_data contract)))"
proof (cases "contract_parsed_data contract")
  case None
  then show ?thesis by (simp add: contract_getParseStatusBadge_def truthy_def classify_def)
next
  case (Some props)
  show ?thesis
  proof (cases "map_of props ''parse_status''")
    case None
    with Some show ?thesis
      by (simp add: contract_getParseStatusBadge_def truthy_def getProp_def classify_def)
  next
    case (Some v)
    with \<open>contract_parsed_data contract = Some props\<close> show ?thesis
      by (cases v)
        (simp_all add: contract_getParseStatusBadge_def truthy_def getProp_def classify_def)
  qed
qed

lemma invoice_badge_classify:
  "invoice_getParseStatusBadge invoice =
     Inr (if falsy_string (invoice_file_path invoice)
          then \<lparr>label = label_not_uploaded, variant = Outline\<rparr>
          else list_badge (classify (invoice_parsed_data invoice)))"
proof (cases "invoice_parsed_data invoice")
  case None
  then show ?thesis by (simp add: invoice_getParseStatusBadge_def truthy_def classify_def)
next
  case (Some props)
  show ?thesis
  proof (cases "map_of props ''parse_status''")
    case None
    with Some show ?thesis
      by (simp add: invoice_getParseStatusBadge_def truthy_def getProp_def classify_def)
  next
    case (Some v)
    with \<open>invoice_parsed_data invoice = Some props\<close> show ?thesis
      by (cases v)
        (simp_all add: invoice_getParseStatusBadge_def truthy_def getProp_def classify_def)
  qed
qed

text \<open>
  C1. The dialog's classifier is total: it never throws, and its badge is the dialog's badge
  of the specification's outcome. The five badges are pairwise different, so the badge
  determines the outcome. An absent payload, a payload without \<open>parse_status\<close>, the number 42
  and the word \<open>bogus\<close> give the badge of \<open>Unparsed\<close>; each of the four status words gives the
  badge of its outcome.
\<close>

theorem C1_status_classification:
  "getParseStatusBadge parsedData = Inr (dialog_badge (classify parsedData))
   \<and> distinct (map dialog_badge [Unparsed, Full, Partial, Failed, Unsupported])
   \<and> getParseStatusBadge None = Inr (dialog_badge Unparsed)
   \<and> getParseStatusBadge (Some []) = Inr (dialog_badge Unparsed)
   \<and> getParseStatusBadge (Some [(''parse_status'', JNum 42)]) = Inr (dialog_badge Unparsed)
   \<and> getParseStatusBadge (Some [(''parse_status'', JStr ''bogus'')]) = Inr (dialog_badge Unparsed)
   \<and> getParseStatusBadge (Some [(''parse_status'', JStr ''full'')]) = Inr (dialog_badge Full)
   \<and> getParseStatusBadge (Some [(''parse_status'', JStr ''partial'')]) = Inr (dialog_badge Partial)
   \<and> getParseStatusBadge (Some [(''parse_status'', JStr ''failed'')]) = Inr (dialog_badge Failed)
   \<and> getParseStatusBadge (Some [(''parse_status'', JStr ''unsupported'')]) = Inr (dialog_badge Unsupported)"
  by (simp add: dialog_badge_classify classify_def label_defs)

text \<open>
  C5 as stated fails: in both list adapters an entity with a file and status \<open>partial\<close> and
  one with status \<open>full\<close> get the same variant, \<open>secondary\<close>.
\<close>

theorem C5_partial_and_full_share_variant:
  "contract_getParseStatusBadge
     \<lparr>contract_file_path = Some ''a.pdf'',
      contract_parsed_data = Some [(''parse_status'', JStr ''partial'')]\<rparr>
     = Inr \<lparr>label = label_partial, variant = Secondary\<rparr>
   \<and> contract_getParseStatusBadge
     \<lparr>contract_file_path = Some ''a.pdf'',
      contract_parsed_data = Some [(''parse_status'', JStr ''full'')]\<rparr>
     = Inr \<lparr>label = label_parsed, variant = Secondary\<rparr>
   \<and> invoice_getParseStatusBadge
     \<lparr>invoice_file_path = Some ''a.pdf'',
      invoice_parsed_data = Some [(''parse_status'', JStr ''partial'')]\<rparr>
     = Inr \<lparr>label = label_partial, variant = Secondary\<rparr>
   \<and> invoice_getParseStatusBadge
     \<lparr>invoice_file_path = Some ''a.pdf'',
      invoice_parsed_data = Some [(''parse_status'', JStr ''full'')]\<rparr>
     = Inr \<lparr>label = label_parsed, variant = Secondary\<rparr>"
  by (simp add: contract_getParseStatusBadge_def invoice_getParseStatusBadge_def
      falsy_string_def truthy_def getProp_def)

text \<open>
  C5, amended. The list adapters use three variants: \<open>outline\<close> for an entity without a file
  and for the outcomes \<open>Unparsed\<close> and \<open>Unsupported\<close>, \<open>secondary\<close> for both \<open>Partial\<close> and
  \<open>Full\<close>, \<open>destructive\<close> for \<open>Failed\<close>. \<open>Partial\<close> and \<open>Full\<close> differ in their label only.
\<close>

theorem C5_row_badge_variants:
  "(\<exists>b. contract_getParseStatusBadge contract = Inr b
        \<and> variant b =
            (if falsy_string (contract_file_path contract) then Outline
             else (case classify (contract_parsed_data contract) of
                     Unparsed \<Rightarrow> Outline
                   | Unsupported \<Rightarrow> Outline
                   | Partial \<Rightarrow> Secondary
                   | Full \<Rightarrow> Secondary
                   | Failed \<Rightarrow> Destructive)))
   \<and> (\<exists>b. invoice_getParseStatusBadge invoice = Inr b
        \<and> variant b =
            (if falsy_string (invoice_file_path invoice) then Outline
             else (case classify (invoice_parsed_data invoice) of
                     Unparsed \<Rightarrow> Outline
                   | Unsupported \<Rightarrow> Outline
                   | Partial \<Rightarrow> Secondary
                   | Full \<Rightarrow> Secondary
                   | Failed \<Rightarrow> Destructive)))
   \<and> label (list_badge Partial) \<noteq> label (list_badge Full)"
proof (intro conjI)
  show "\<exists>b. contract_getParseStatusBadge contract = Inr b
        \<and> variant b =
            (if falsy_string (contract_file_path contract) then Outline
             else (case classify (contract_parsed_data contract) of
                     Unparsed \<Rightarrow> Outline
                   | Unsupported \<Rightarrow> Outline
                   | Partial \<Rightarrow> Secondary
                   | Full \<Rightarrow> Secondary
                   | Failed \<Rightarrow> Destructive))"
    by (cases "classify (contract_parsed_data contract)")
      (simp_all add: contract_badge_classify)
  show "\<exists>b. invoice_getParseStatusBadge invoice = Inr b
        \<and> variant b =
            (if falsy_string (invoice_file_path invoice) then Outline
             else (case classify (invoice_parsed_data invoice) of
                     Unparsed \<Rightarrow> Outline
                   | Unsupported \<Rightarrow> Outline
                   | Partial \<Rightarrow> Secondary
                   | Full \<Rightarrow> Secondary
                   | Failed \<Rightarrow> Destructive))"
    by (cases "classify (invoice_parsed_data invoice)")
      (simp_all add: invoice_badge_classify)
  show "label (list_badge Partial) \<noteq> label (list_badge Full)"
    by (simp add: label_defs)
qed

text \<open>
  C9. Both list adapters look at \<open>file_path\<close> first: without a file reference the badge is
  the not-uploaded one whatever the payload holds, also a payload of status \<open>full\<close>; with a
  file reference the badge is the list badge of the payload's outcome, whose default label
  is the pending one.
\<close>

theorem C9_file_reference_first:
  "contract_getParseStatusBadge contract =
     Inr (if falsy_string (contract_file_path contract)
          then \<lparr>label = label_not_uploaded, variant = Outline\<rparr>
          else list_badge (classify (contract_parsed_data contract)))
   \<and> invoice_getParseStatusBadge invoice =
     Inr (if falsy_string (invoice_file_path invoice)
          then \<lparr>label = label_not_uploaded, variant = Outline\<rparr>
          else list_badge (classify (invoice_parsed_data invoice)))
   \<and> list_badge Unparsed = \<lparr>label = label_pending, variant = Outline\<rparr>
   \<and> label_pending \<noteq> label_not_uploaded
   \<and> contract_getParseStatusBadge
        \<lparr>contract_file_path = None,
         contract_parsed_data = Some [(''parse_status'', JStr ''full'')]\<rparr>
       = Inr \<lparr>label = label_not_uploaded, variant = Outline\<rparr>
   \<and> invoice_getParseStatusBadge
        \<lparr>invoice_file_path = None,
         invoice_parsed_data = Some [(''parse_status'', JStr ''full'')]\<rparr>
       = Inr \<lparr>label = label_not_uploaded, variant = Outline\<rparr>
   \<and> contract_getParseStatusBadge
        \<lparr>contract_file_path = Some ''a.pdf'', contract_parsed_data = None\<rparr>
       = Inr \<lparr>label = label_pending, variant = Outline\<rparr>
   \<and> invoice_getParseStatusBadge
        \<lparr>invoice_file_path = Some ''a.pdf'', invoice_parsed_data = None\<rparr>
       = Inr \<lparr>label = label_pending, variant = Outline\<rparr>"
  by (simp add: contract_badge_classify invoice_badge_classify falsy_string_def classify_def
      label_defs)

text \<open>
  C10. For an entity with a file reference and any payload, the contract row's and the
  invoice row's classifier return the same badge; when the payload's status is one of the
  four status words that badge is also the dialog's; otherwise the dialog returns its
  default badge and the rows return theirs, of the same variant and another label. So the
  three classifiers recognise the same four status words.
\<close>

theorem C10_classifiers_agree:
  assumes "\<not> falsy_string file_path"
  shows "\<exists>d l.
     getParseStatusBadge parsedData = Inr d
     \<and> contract_getParseStatusBadge
          \<lparr>contract_file_path = file_path, contract_parsed_data = parsedData\<rparr> = Inr l
     \<and> invoice_getParseStatusBadge
          \<lparr>invoice_file_path = file_path, invoice_parsed_data = parsedData\<rparr> = Inr l
     \<and> (if classify parsedData = Unparsed
         then d = \<lparr>label = label_unparsed, variant = Outline\<rparr>
              \<and> l = \<lparr>label = label_pending, variant = Outline\<rparr>
              \<and> label d \<noteq> label l
         else l = d)"
  using assms
  by (cases "classify parsedData")
    (simp_all add: dialog_badge_classify contract_badge_classify invoice_badge_classify
      label_defs)

theorem C10_classifiers_agree_witness:
  "\<not> falsy_string (Some ''a.pdf'')
   \<and> (\<exists>d l.
     getParseStatusBadge (Some [(''parse_status'', JStr ''failed'')]) = Inr d
     \<and> contract_getParseStatusBadge
          \<lparr>contract_file_path = Some ''a.pdf'',
           contract_parsed_data = Some [(''parse_status'', JStr ''failed'')]\<rparr> = Inr l
     \<and> invoice_getParseStatusBadge
          \<lparr>invoice_file_path = Some ''a.pdf'',
           invoice_parsed_data = Some [(''parse_status'', JStr ''failed'')]\<rparr> = Inr l
     \<and> l = d \<and> d = \<lparr>label = label_failed, variant = Destructive\<rparr>)"
proof -
  have h: "\<not> falsy_string (Some ''a.pdf'')"
    by (simp add: falsy_string_def)
  have c: "classify (Some [(''parse_status'', JStr ''failed'')]) = Failed"
    by (simp add: classify_def)
  from C10_classifiers_agree [OF h, of "Some [(''parse_status'', JStr ''failed'')]"]
  obtain d l where
    "getParseStatusBadge (Some [(''parse_status'', JStr ''failed'')]) = Inr d"
    "contract_getParseStatusBadge
          \<lparr>contract_file_path = Some ''a.pdf'',
           contract_parsed_data = Some [(''parse_status'', JStr ''failed'')]\<rparr> = Inr l"
    "invoice_getParseStatusBadge
          \<lparr>invoice_file_path = Some ''a.pdf'',
           invoice_parsed_data = Some [(''parse_status'', JStr ''failed'')]\<rparr> = Inr l"
    "l = d"
    by (auto simp: c)
  moreover from this have "d = \<lparr>label = label_failed, variant = Destructive\<rparr>"
    by (simp add: getParseStatusBadge_def truthy_def getProp_def)
  ultimately show ?thesis using h by blast
qed

subsection \<open>When the view is built\<close>

lemma formatDate_returns: "\<exists>s. formatDate pf v = Inr s"
proof (cases v)
  case None
  then show ?thesis by (simp add: formatDate_def)
next
  case (Some j)
  then show ?thesis
    by (cases j) (simp_all add: formatDate_def as_string_def split: option.split)
qed

lemma formatMoney_returns: "\<exists>s. formatMoney v = Inr s"
proof (cases v)
  case None
  then show ?thesis by (simp add: formatMoney_def)
next
  case (Some j)
  then show ?thesis
    by (cases j) (simp_all add: formatMoney_def as_number_def)
qed

lemma error_is_TypeError: "(e :: error) = TypeError"
  by (cases e) simp

lemma collect_returns:
  "(\<And>x. x \<in> set xs \<Longrightarrow> \<exists>y. f x = Inr y) \<Longrightarrow> \<exists>ys. collect (map f xs) = Inr ys"
proof (induction xs)
  case Nil
  show ?case by simp
next
  case (Cons x xs)
  then obtain y ys where "f x = Inr y" "collect (map f xs) = Inr ys"
    by (metis list.set_intros)
  then show ?case by simp
qed

lemma collect_throws:
  "x \<in> set xs \<Longrightarrow> f x = Inl TypeError \<Longrightarrow> collect (map f xs) = Inl TypeError"
proof (induction xs)
  case Nil
  then show ?case by simp
next
  case (Cons a xs)
  show ?case
  proof (cases "f a")
    case (Inl e)
    then show ?thesis by (simp add: error_is_TypeError [of e])
  next
    case (Inr y)
    with Cons have "collect (map f xs) = Inl TypeError" by auto
    with Inr show ?thesis by simp
  qed
qed

lemma ToString_returns: "stringable j \<Longrightarrow> \<exists>s. ToString_json pf j = Inr s"
proof (induction j)
  case (JArr xs)
  have "\<exists>ys. collect (map (\<lambda>e. if e = JNull then Inr [] else ToString_json pf e) xs) = Inr ys"
  proof (rule collect_returns)
    fix x assume "x \<in> set xs"
    with JArr show "\<exists>y. (if x = JNull then Inr [] else ToString_json pf x) = Inr y"
      by (simp add: list_all_iff)
  qed
  then show ?case by auto
qed simp_all

lemma ToString_throws: "\<not> stringable j \<Longrightarrow> ToString_json pf j = Inl TypeError"
proof (induction j)
  case (JArr xs)
  then obtain x where x: "x \<in> set xs" "\<not> stringable x"
    by (auto simp: list_all_iff)
  with JArr.IH have "ToString_json pf x = Inl TypeError"
    by blast
  moreover from x have "x \<noteq> JNull" by auto
  ultimately have
    "collect (map (\<lambda>e. if e = JNull then Inr [] else ToString_json pf e) xs) = Inl TypeError"
    using x(1) by (intro collect_throws [of x]) simp_all
  then show ?case by simp
qed simp_all

lemma Array_join_returns: "list_all stringable xs \<Longrightarrow> \<exists>s. Array_join pf sep xs = Inr s"
proof -
  assume a: "list_all stringable xs"
  have "\<exists>ys. collect (map (\<lambda>e. if e = JNull then Inr [] else ToString_json pf e) xs) = Inr ys"
  proof (rule collect_returns)
    fix x assume "x \<in> set xs"
    with a have "stringable x" by (simp add: list_all_iff)
    then show "\<exists>y. (if x = JNull then Inr [] else ToString_json pf x) = Inr y"
      using ToString_returns by simp
  qed
  then show ?thesis by (auto simp: Array_join_def)
qed

lemma Array_join_throws: "\<not> list_all stringable xs \<Longrightarrow> Array_join pf sep xs = Inl TypeError"
proof -
  assume "\<not> list_all stringable xs"
  then obtain x where x: "x \<in> set xs" "\<not> stringable x"
    by (auto simp: list_all_iff)
  then have "ToString_json pf x = Inl TypeError" "x \<noteq> JNull"
    using ToString_throws by auto
  then have
    "collect (map (\<lambda>e. if e = JNull then Inr [] else ToString_json pf e) xs) = Inl TypeError"
    using x(1) by (intro collect_throws [of x]) simp_all
  then show ?thesis by (simp add: Array_join_def)
qed

lemma formatText_returns: "formattable v \<Longrightarrow> \<exists>s. formatText pf v = Inr s"
proof (cases v)
  case None
  then show ?thesis by (simp add: formatText_def)
next
  case (Some j)
  assume f: "formattable v"
  show ?thesis
  proof (cases j)
    case (JArr xs)
    with f Some obtain s where "Array_join pf '', '' xs = Inr s"
      using Array_join_returns [of xs pf "'', ''"] by (auto simp: formattable_def)
    with Some JArr show ?thesis
      by (simp add: formatText_def Array_isArray_def as_array_def)
  qed (use Some in \<open>simp_all add: formatText_def Array_isArray_def as_object_def String_def\<close>)
qed

lemma formatText_throws: "\<not> formattable v \<Longrightarrow> formatText pf v = Inl TypeError"
proof -
  assume "\<not> formattable v"
  then obtain xs where "v = Some (JArr xs)" "\<not> list_all stringable xs"
    by (auto simp: formattable_def split: option.splits json.splits)
  then show ?thesis
    using Array_join_throws [of xs pf "'', ''"]
    by (simp add: formatText_def Array_isArray_def as_array_def)
qed

lemma collect_plus_one_numbers:
  "\<exists>ys. collect (map plus_one (filter (\<lambda>value. typeof (Some value) = ''number'') xs)) = Inr ys
        \<and> list_all stringable ys"
proof (induction xs)
  case Nil
  show ?case by simp
next
  case (Cons x xs)
  then obtain ys where
    ys: "collect (map plus_one (filter (\<lambda>value. typeof (Some value) = ''number'') xs)) = Inr ys"
      "list_all stringable ys"
    by blast
  have num: "\<And>y. plus_one (JNum y) = Inr (JNum (round_to_double (y + 1)))"
    by (simp add: plus_one_def)
  show ?case by (cases x) (simp_all add: ys num)
qed

lemma stampPages_returns: "\<exists>s. stampPages pf (Some props) = Inr s"
proof (cases "map_of props ''stamp_pages''")
  case None
  then show ?thesis by (simp add: stampPages_def getProp_def Array_isArray_def)
next
  case (Some j)
  show ?thesis
  proof (cases j)
    case (JArr xs)
    obtain ys where
      "collect (map plus_one (filter (\<lambda>value. typeof (Some value) = ''number'') xs)) = Inr ys"
      "list_all stringable ys"
      using collect_plus_one_numbers by blast
    moreover from this obtain s where "Array_join pf '', '' ys = Inr s"
      using Array_join_returns by blast
    ultimately show ?thesis
      using Some JArr by (simp add: stampPages_def getProp_def Array_isArray_def as_array_def)
  qed (use Some in \<open>simp_all add: stampPages_def getProp_def Array_isArray_def\<close>)
qed

lemma contract_rows_shape:
  assumes "getSummaryRows pf Contract (Some props) = Inr rows"
  shows "\<exists>s1 s2 s3 s4 s5 s6 s7 sp.
     formatText pf (map_of props ''party_a'') = Inr s1
     \<and> formatText pf (map_of props ''party_b'') = Inr s2
     \<and> formatText pf (map_of props ''contract_number'') = Inr s3
     \<and> formatDate pf (map_of props ''sign_date'') = Inr s4
     \<and> formatDate pf (map_of props ''effective_date'') = Inr s5
     \<and> formatDate pf (map_of props ''expiry_date'') = Inr s6
     \<and> formatMoney (map_of props ''amount'') = Inr s7
     \<and> stampPages pf (Some props) = Inr sp
     \<and> rows =
         [\<lparr>row_label = lbl_party_a, row_value = s1\<rparr>,
          \<lparr>row_label = lbl_party_b, row_value = s2\<rparr>,
          \<lparr>row_label = lbl_contract_number, row_value = s3\<rparr>,
          \<lparr>row_label = lbl_sign_date, row_value = s4\<rparr>,
          \<lparr>row_label = lbl_effective_date, row_value = s5\<rparr>,
          \<lparr>row_label = lbl_expiry_date, row_value = s6\<rparr>,
          \<lparr>row_label = lbl_contract_amount, row_value = s7\<rparr>,
          \<lparr>row_label = lbl_stamp_pages, row_value = (if sp = [] then ''-'' else sp)\<rparr>]"
proof -
  note defs = getSummaryRows_def truthy_def row_def getProp_def
  obtain s4 where s4: "formatDate pf (map_of props ''sign_date'') = Inr s4"
    using formatDate_returns by blast
  obtain s5 where s5: "formatDate pf (map_of props ''effective_date'') = Inr s5"
    using formatDate_returns by blast
  obtain s6 where s6: "formatDate pf (map_of props ''expiry_date'') = Inr s6"
    using formatDate_returns by blast
  obtain s7 where s7: "formatMoney (map_of props ''amount'') = Inr s7"
    using formatMoney_returns by blast
  obtain sp where sp: "stampPages pf (Some props) = Inr sp"
    using stampPages_returns by blast
  obtain s1 where s1: "formatText pf (map_of props ''party_a'') = Inr s1"
  proof (cases "formatText pf (map_of props ''party_a'')")
    case (Inl e)
    with assms show ?thesis
      by (simp add: defs s4 s5 s6 s7 sp)
  qed blast
  obtain s2 where s2: "formatText pf (map_of props ''party_b'') = Inr s2"
  proof (cases "formatText pf (map_of props ''party_b'')")
    case (Inl e)
    with assms show ?thesis
      by (simp add: defs s4 s5 s6 s7 sp s1)
  qed blast
  obtain s3 where s3: "formatText pf (map_of props ''contract_number'') = Inr s3"
  proof (cases "formatText pf (map_of props ''contract_number'')")
    case (Inl e)
    with assms show ?thesis
      by (simp add: defs s4 s5 s6 s7 sp s1 s2)
  qed blast
  from assms have "rows =
         [\<lparr>row_label = lbl_party_a, row_value = s1\<rparr>,
          \<lparr>row_label = lbl_party_b, row_value = s2\<rparr>,
          \<lparr>row_label = lbl_contract_number, row_value = s3\<rparr>,
          \<lparr>row_label = lbl_sign_date, row_value = s4\<rparr>,
          \<lparr>row_label = lbl_effective_date, row_value = s5\<rparr>,
          \<lparr>row_label = lbl_expiry_date, row_value = s6\<rparr>,
          \<lparr>row_label = lbl_contract_amount, row_value = s7\<rparr>,
          \<lparr>row_label = lbl_stamp_pages, row_value = (if sp = [] then ''-'' else sp)\<rparr>]"
    by (simp add: defs s4 s5 s6 s7 sp s1 s2 s3)
  with s1 s2 s3 s4 s5 s6 s7 sp show ?thesis by blast
qed

lemma invoice_rows_shape:
  assumes "getSummaryRows pf Invoice (Some props) = Inr rows"
  shows "\<exists>s1 s2 s3 s4 s5 s6 s7.
     formatText pf (map_of props ''invoice_number'') = Inr s1
     \<and> formatText pf (map_of props ''invoice_code'') = Inr s2
     \<and> formatDate pf (map_of props ''invoice_date'') = Inr s3
     \<and> formatText pf (map_of props ''seller'') = Inr s4
     \<and> formatText pf (map_of props ''buyer'') = Inr s5
     \<and> formatMoney (map_of props ''amount'') = Inr s6
     \<and> formatMoney (map_of props ''tax_amount'') = Inr s7
     \<and> rows =
         [\<lparr>row_label = lbl_invoice_number, row_value = s1\<rparr>,
          \<lparr>row_label = lbl_invoice_code, row_value = s2\<rparr>,
          \<lparr>row_label = lbl_invoice_date, row_value = s3\<rparr>,
          \<lparr>row_label = lbl_seller, row_value = s4\<rparr>,
          \<lparr>row_label = lbl_buyer, row_value = s5\<rparr>,
          \<lparr>row_label = lbl_invoice_amount, row_value = s6\<rparr>,
          \<lparr>row_label = lbl_tax_amount, row_value = s7\<rparr>]"
proof -
  note defs = getSummaryRows_def truthy_def row_def getProp_def
  obtain s3 where s3: "formatDate pf (map_of props ''invoice_date'') = Inr s3"
    using formatDate_returns by blast
  obtain s6 where s6: "formatMoney (map_of props ''amount'') = Inr s6"
    using formatMoney_returns by blast
  obtain s7 where s7: "formatMoney (map_of props ''tax_amount'') = Inr s7"
    using formatMoney_returns by blast
  obtain s1 where s1: "formatText pf (map_of props ''invoice_number'') = Inr s1"
  proof (cases "formatText pf (map_of props ''invoice_number'')")
    case (Inl e)
    with assms show ?thesis
      by (simp add: defs s3 s6 s7)
  qed blast
  obtain s2 where s2: "formatText pf (map_of props ''invoice_code'') = Inr s2"
  proof (cases "formatText pf (map_of props ''invoice_code'')")
    case (Inl e)
    with assms show ?thesis
      by (simp add: defs s3 s6 s7 s1)
  qed blast
  obtain s4 where s4: "formatText pf (map_of props ''seller'') = Inr s4"
  proof (cases "formatText pf (map_of props ''seller'')")
    case (Inl e)
    with assms show ?thesis
      by (simp add: defs s3 s6 s7 s1 s2)
  qed blast
  obtain s5 where s5: "formatText pf (map_of props ''buyer'') = Inr s5"
  proof (cases "formatText pf (map_of props ''buyer'')")
    case (Inl e)
    with assms show ?thesis
      by (simp add: defs s3 s6 s7 s1 s2 s4)
  qed blast
  from assms have "rows =
         [\<lparr>row_label = lbl_invoice_number, row_value = s1\<rparr>,
          \<lparr>row_label = lbl_invoice_code, row_value = s2\<rparr>,
          \<lparr>row_label = lbl_invoice_date, row_value = s3\<rparr>,
          \<lparr>row_label = lbl_seller, row_value = s4\<rparr>,
          \<lparr>row_label = lbl_buyer, row_value = s5\<rparr>,
          \<lparr>row_label = lbl_invoice_amount, row_value = s6\<rparr>,
          \<lparr>row_label = lbl_tax_amount, row_value = s7\<rparr>]"
    by (simp add: defs s3 s6 s7 s1 s2 s4 s5)
  with s1 s2 s3 s4 s5 s6 s7 show ?thesis by blast
qed

lemma contract_rows_returned:
  assumes "list_all (\<lambda>key. formattable (map_of props key)) (text_fields Contract)"
  shows "\<exists>rows. getSummaryRows pf Contract (Some props) = Inr rows"
proof -
  note defs = getSummaryRows_def truthy_def row_def getProp_def
  obtain s1 where s1: "formatText pf (map_of props ''party_a'') = Inr s1"
    using assms formatText_returns [of "map_of props ''party_a''" pf] by auto
  obtain s2 where s2: "formatText pf (map_of props ''party_b'') = Inr s2"
    using assms formatText_returns [of "map_of props ''party_b''" pf] by auto
  obtain s3 where s3: "formatText pf (map_of props ''contract_number'') = Inr s3"
    using assms formatText_returns [of "map_of props ''contract_number''" pf] by auto
  obtain s4 where s4: "formatDate pf (map_of props ''sign_date'') = Inr s4"
    using formatDate_returns by blast
  obtain s5 where s5: "formatDate pf (map_of props ''effective_date'') = Inr s5"
    using formatDate_returns by blast
  obtain s6 where s6: "formatDate pf (map_of props ''expiry_date'') = Inr s6"
    using formatDate_returns by blast
  obtain s7 where s7: "formatMoney (map_of props ''amount'') = Inr s7"
    using formatMoney_returns by blast
  obtain sp where sp: "stampPages pf (Some props) = Inr sp"
    using stampPages_returns by blast
  show ?thesis
    by (simp add: defs s1 s2 s3 s4 s5 s6 s7 sp)
qed

lemma invoice_rows_returned:
  assumes "list_all (\<lambda>key. formattable (map_of props key)) (text_fields Invoice)"
  shows "\<exists>rows. getSummaryRows pf Invoice (Some props) = Inr rows"
proof -
  note defs = getSummaryRows_def truthy_def row_def getProp_def
  obtain s1 where s1: "formatText pf (map_of props ''invoice_number'') = Inr s1"
    using assms formatText_returns [of "map_of props ''invoice_number''" pf] by auto
  obtain s2 where s2: "formatText pf (map_of props ''invoice_code'') = Inr s2"
    using assms formatText_returns [of "map_of props ''invoice_code''" pf] by auto
  obtain s3 where s3: "formatDate pf (map_of props ''invoice_date'') = Inr s3"
    using formatDate_returns by blast
  obtain s4 where s4: "formatText pf (map_of props ''seller'') = Inr s4"
    using assms formatText_returns [of "map_of props ''seller''" pf] by auto
  obtain s5 where s5: "formatText pf (map_of props ''buyer'') = Inr s5"
    using assms formatText_returns [of "map_of props ''buyer''" pf] by auto
  obtain s6 where s6: "formatMoney (map_of props ''amount'') = Inr s6"
    using formatMoney_returns by blast
  obtain s7 where s7: "formatMoney (map_of props ''tax_amount'') = Inr s7"
    using formatMoney_returns by blast
  show ?thesis
    by (simp add: defs s1 s2 s3 s4 s5 s6 s7)
qed

lemma getSummaryRows_absent: "getSummaryRows pf kind None = Inr []"
  by (simp add: getSummaryRows_def truthy_def)

lemma getSummaryRows_returned:
  "list_all (\<lambda>key. formattable (map_of props key)) (text_fields kind)
     \<Longrightarrow> \<exists>rows. getSummaryRows pf kind (Some props) = Inr rows"
  using contract_rows_returned invoice_rows_returned by (cases kind) blast+

lemma getParseMessage_eq:
  "getParseMessage parsedData =
     Inr (case parsedData of
            None \<Rightarrow> no_parse_info
          | Some props \<Rightarrow>
              (case map_of props ''parse_message'' of Some (JStr m) \<Rightarrow> m | _ \<Rightarrow> no_parse_info))"
proof (cases parsedData)
  case None
  then show ?thesis by (simp add: getParseMessage_def truthy_def)
next
  case (Some props)
  show ?thesis
  proof (cases "map_of props ''parse_message''")
    case None
    with Some show ?thesis by (simp add: getParseMessage_def truthy_def getProp_def)
  next
    case (Some v)
    with \<open>parsedData = Some props\<close> show ?thesis
      by (cases v) (simp_all add: getParseMessage_def truthy_def getProp_def as_string_def)
  qed
qed

lemma getRawText_eq:
  "getRawText parsedData =
     Inr (case parsedData of
            None \<Rightarrow> []
          | Some props \<Rightarrow>
              (case map_of props ''raw_text'' of Some (JStr t) \<Rightarrow> t | _ \<Rightarrow> []))"
proof (cases parsedData)
  case None
  then show ?thesis by (simp add: getRawText_def truthy_def)
next
  case (Some props)
  show ?thesis
  proof (cases "map_of props ''raw_text''")
    case None
    with Some show ?thesis by (simp add: getRawText_def truthy_def getProp_def)
  next
    case (Some v)
    with \<open>parsedData = Some props\<close> show ?thesis
      by (cases v) (simp_all add: getRawText_def truthy_def getProp_def as_string_def)
  qed
qed

lemma getJsonText_eq:
  "getJsonText pf parsedData =
     Inr (case parsedData of None \<Rightarrow> [] | Some props \<Rightarrow> JSON_stringify_2 pf (JObj props))"
  by (cases parsedData) (simp_all add: getJsonText_def truthy_def)

lemma ParsedDataDialog_view:
  assumes "getSummaryRows pf kind parsedData = Inr rows"
  shows "ParsedDataDialog pf kind parsedData =
          Inr \<lparr>badge = dialog_badge (classify parsedData),
               summaryRows = rows,
               parseMessage =
                 (case parsedData of
                    None \<Rightarrow> no_parse_info
                  | Some props \<Rightarrow>
                      (case map_of props ''parse_message'' of
                         Some (JStr m) \<Rightarrow> m
                       | _ \<Rightarrow> no_parse_info)),
               rawText =
                 (case parsedData of
                    None \<Rightarrow> []
                  | Some props \<Rightarrow>
                      (case map_of props ''raw_text'' of Some (JStr t) \<Rightarrow> t | _ \<Rightarrow> [])),
               rawJson =
                 (case parsedData of
                    None \<Rightarrow> []
                  | Some props \<Rightarrow> JSON_stringify_2 pf (JObj props))\<rparr>"
  using assms
  by (simp add: ParsedDataDialog_def dialog_badge_classify getParseMessage_eq getRawText_eq
      getJsonText_eq)

lemma ParsedDataDialog_throws:
  "getSummaryRows pf kind parsedData = Inl e \<Longrightarrow> ParsedDataDialog pf kind parsedData = Inl e"
  by (simp add: ParsedDataDialog_def dialog_badge_classify)

text \<open>
  The dialog's computation returns a view for every kind and payload but those where a field
  given to \<open>formatText\<close> is an array with an element that cannot be converted to a string.
\<close>

lemma getSummaryRows_throws:
  assumes "\<not> list_all (\<lambda>key. formattable (map_of props key)) (text_fields kind)"
  shows "getSummaryRows pf kind (Some props) = Inl TypeError"
proof (cases "getSummaryRows pf kind (Some props)")
  case (Inl e)
  then show ?thesis by (simp add: error_is_TypeError [of e])
next
  case (Inr rows)
  have "list_all (\<lambda>key. formattable (map_of props key)) (text_fields kind)"
  proof (cases kind)
    case Contract
    with Inr contract_rows_shape [of pf props rows]
    have "\<exists>s. formatText pf (map_of props ''party_a'') = Inr s"
      "\<exists>s. formatText pf (map_of props ''party_b'') = Inr s"
      "\<exists>s. formatText pf (map_of props ''contract_number'') = Inr s"
      by auto
    with Contract show ?thesis
      using formatText_throws [of _ pf] by fastforce
  next
    case Invoice
    with Inr invoice_rows_shape [of pf props rows]
    have "\<exists>s. formatText pf (map_of props ''invoice_number'') = Inr s"
      "\<exists>s. formatText pf (map_of props ''invoice_code'') = Inr s"
      "\<exists>s. formatText pf (map_of props ''seller'') = Inr s"
      "\<exists>s. formatText pf (map_of props ''buyer'') = Inr s"
      by auto
    with Invoice show ?thesis
      using formatText_throws [of _ pf] by fastforce
  qed
  with assms show ?thesis by simp
qed

lemma ParsedDataDialog_returns_iff:
  "(\<exists>view. ParsedDataDialog pf kind (Some props) = Inr view)
     = list_all (\<lambda>key. formattable (map_of props key)) (text_fields kind)"
proof
  assume "\<exists>view. ParsedDataDialog pf kind (Some props) = Inr view"
  then show "list_all (\<lambda>key. formattable (map_of props key)) (text_fields kind)"
    using getSummaryRows_throws [of props kind pf] ParsedDataDialog_throws [of pf kind "Some props"]
    by fastforce
next
  assume "list_all (\<lambda>key. formattable (map_of props key)) (text_fields kind)"
  then obtain rows where "getSummaryRows pf kind (Some props) = Inr rows"
    using getSummaryRows_returned by blast
  then show "\<exists>view. ParsedDataDialog pf kind (Some props) = Inr view"
    using ParsedDataDialog_view by blast
qed

lemma ParsedDataDialog_absent:
  "ParsedDataDialog pf kind None =
       Inr \<lparr>badge = dialog_badge Unparsed, summaryRows = [], parseMessage = no_parse_info,
            rawText = [], rawJson = []\<rparr>"
  by (simp add: ParsedDataDialog_view [OF getSummaryRows_absent] classify_def)

text \<open>
  C2 fails on the code. For the contract payload \<open>{party_a: [{toString: null}]}\<close> the call
  \<open>value.join(", ")\<close> in \<open>formatText\<close> throws a \<open>TypeError\<close>: the element is an object whose own
  property \<open>toString\<close> is no function, so it cannot be converted to a string. The error leaves
  \<open>getSummaryRows\<close> and the dialog; the same holds for the invoice payload
  \<open>{seller: [[{toString: 0}]]}\<close>, where the object lies in a nested array.
\<close>

theorem C2_join_throws:
  "formatText pf (Some (JArr [JObj [(''toString'', JNull)]])) = Inl TypeError
   \<and> getSummaryRows pf Contract (Some [(''party_a'', JArr [JObj [(''toString'', JNull)]])])
       = Inl TypeError
   \<and> ParsedDataDialog pf Contract (Some [(''party_a'', JArr [JObj [(''toString'', JNull)]])])
       = Inl TypeError
   \<and> ParsedDataDialog pf Invoice (Some [(''seller'', JArr [JArr [JObj [(''toString'', JNum 0)]]])])
       = Inl TypeError"
proof (intro conjI)
  show "formatText pf (Some (JArr [JObj [(''toString'', JNull)]])) = Inl TypeError"
    by (simp add: formatText_def Array_isArray_def as_array_def Array_join_def)
  have "getSummaryRows pf Contract (Some [(''party_a'', JArr [JObj [(''toString'', JNull)]])])
       = Inl TypeError"
    by (rule getSummaryRows_throws) (simp add: formattable_def)
  then show "getSummaryRows pf Contract (Some [(''party_a'', JArr [JObj [(''toString'', JNull)]])])
       = Inl TypeError"
    and "ParsedDataDialog pf Contract (Some [(''party_a'', JArr [JObj [(''toString'', JNull)]])])
       = Inl TypeError"
    by (simp_all add: ParsedDataDialog_throws)
  have "getSummaryRows pf Invoice (Some [(''seller'', JArr [JArr [JObj [(''toString'', JNum 0)]]])])
       = Inl TypeError"
    by (rule getSummaryRows_throws) (simp add: formattable_def)
  then show "ParsedDataDialog pf Invoice (Some [(''seller'', JArr [JArr [JObj [(''toString'', JNum 0)]]])])
       = Inl TypeError"
    by (rule ParsedDataDialog_throws)
qed

subsection \<open>The summary rows\<close>

lemmas row_label_defs =
  lbl_party_a_def lbl_party_b_def lbl_contract_number_def lbl_sign_date_def
  lbl_effective_date_def lbl_expiry_date_def lbl_contract_amount_def lbl_stamp_pages_def
  lbl_invoice_number_def lbl_invoice_code_def lbl_invoice_date_def lbl_seller_def lbl_buyer_def
  lbl_invoice_amount_def lbl_tax_amount_def

lemma formatText_undefined: "formatText pf None = Inr ''-''"
  by (simp add: formatText_def)

lemma formatDate_undefined: "formatDate pf None = Inr ''-''"
  by (simp add: formatDate_def)

lemma formatMoney_undefined: "formatMoney None = Inr ''-''"
  by (simp add: formatMoney_def)

lemma stampPages_undefined:
  "map_of props ''stamp_pages'' = None \<Longrightarrow> stampPages pf (Some props) = Inr ''-''"
  by (simp add: stampPages_def getProp_def Array_isArray_def)

lemma less_8_cases:
  "i < (8::nat) \<Longrightarrow> i = 0 \<or> i = 1 \<or> i = 2 \<or> i = 3 \<or> i = 4 \<or> i = 5 \<or> i = 6 \<or> i = 7"
  by arith

lemma less_7_cases:
  "i < (7::nat) \<Longrightarrow> i = 0 \<or> i = 1 \<or> i = 2 \<or> i = 3 \<or> i = 4 \<or> i = 5 \<or> i = 6"
  by arith

lemma contract_rows:
  assumes "getSummaryRows pf Contract (Some props) = Inr rows"
  shows "length rows = 8
      \<and> map row_label rows =
          [lbl_party_a, lbl_party_b, lbl_contract_number, lbl_sign_date, lbl_effective_date,
           lbl_expiry_date, lbl_contract_amount, lbl_stamp_pages]
      \<and> (\<forall>i<8. map_of props
                   ([''party_a'', ''party_b'', ''contract_number'', ''sign_date'',
                     ''effective_date'', ''expiry_date'', ''amount'', ''stamp_pages''] ! i) = None
                 \<longrightarrow> row_value (rows ! i) = ''-'')"
proof -
  from contract_rows_shape [OF assms]
  obtain s1 s2 s3 s4 s5 s6 s7 sp where
    f: "formatText pf (map_of props ''party_a'') = Inr s1"
       "formatText pf (map_of props ''party_b'') = Inr s2"
       "formatText pf (map_of props ''contract_number'') = Inr s3"
       "formatDate pf (map_of props ''sign_date'') = Inr s4"
       "formatDate pf (map_of props ''effective_date'') = Inr s5"
       "formatDate pf (map_of props ''expiry_date'') = Inr s6"
       "formatMoney (map_of props ''amount'') = Inr s7"
       "stampPages pf (Some props) = Inr sp"
    and rows: "rows =
         [\<lparr>row_label = lbl_party_a, row_value = s1\<rparr>,
          \<lparr>row_label = lbl_party_b, row_value = s2\<rparr>,
          \<lparr>row_label = lbl_contract_number, row_value = s3\<rparr>,
          \<lparr>row_label = lbl_sign_date, row_value = s4\<rparr>,
          \<lparr>row_label = lbl_effective_date, row_value = s5\<rparr>,
          \<lparr>row_label = lbl_expiry_date, row_value = s6\<rparr>,
          \<lparr>row_label = lbl_contract_amount, row_value = s7\<rparr>,
          \<lparr>row_label = lbl_stamp_pages, row_value = (if sp = [] then ''-'' else sp)\<rparr>]"
    by blast
  have missing: "row_value (rows ! i) = ''-''"
    if "i < 8"
      and "map_of props
                   ([''party_a'', ''party_b'', ''contract_number'', ''sign_date'',
                     ''effective_date'', ''expiry_date'', ''amount'', ''stamp_pages''] ! i) = None"
    for i
    using less_8_cases [OF that(1)] that(2) f unfolding rows
    by (auto simp: formatText_undefined formatDate_undefined formatMoney_undefined
        stampPages_undefined)
  show ?thesis
    using missing by (simp add: rows)
qed

lemma invoice_rows:
  assumes "getSummaryRows pf Invoice (Some props) = Inr rows"
  shows "length rows = 7
      \<and> map row_label rows =
          [lbl_invoice_number, lbl_invoice_code, lbl_invoice_date, lbl_seller, lbl_buyer,
           lbl_invoice_amount, lbl_tax_amount]
      \<and> (\<forall>i<7. map_of props
                   ([''invoice_number'', ''invoice_code'', ''invoice_date'', ''seller'',
                     ''buyer'', ''amount'', ''tax_amount''] ! i) = None
                 \<longrightarrow> row_value (rows ! i) = ''-'')"
proof -
  from invoice_rows_shape [OF assms]
  obtain s1 s2 s3 s4 s5 s6 s7 where
    f: "formatText pf (map_of props ''invoice_number'') = Inr s1"
       "formatText pf (map_of props ''invoice_code'') = Inr s2"
       "formatDate pf (map_of props ''invoice_date'') = Inr s3"
       "formatText pf (map_of props ''seller'') = Inr s4"
       "formatText pf (map_of props ''buyer'') = Inr s5"
       "formatMoney (map_of props ''amount'') = Inr s6"
       "formatMoney (map_of props ''tax_amount'') = Inr s7"
    and rows: "rows =
         [\<lparr>row_label = lbl_invoice_number, row_value = s1\<rparr>,
          \<lparr>row_label = lbl_invoice_code, row_value = s2\<rparr>,
          \<lparr>row_label = lbl_invoice_date, row_value = s3\<rparr>,
          \<lparr>row_label = lbl_seller, row_value = s4\<rparr>,
          \<lparr>row_label = lbl_buyer, row_value = s5\<rparr>,
          \<lparr>row_label = lbl_invoice_amount, row_value = s6\<rparr>,
          \<lparr>row_label = lbl_tax_amount, row_value = s7\<rparr>]"
    by blast
  have missing: "row_value (rows ! i) = ''-''"
    if "i < 7"
      and "map_of props
                   ([''invoice_number'', ''invoice_code'', ''invoice_date'', ''seller'',
                     ''buyer'', ''amount'', ''tax_amount''] ! i) = None"
    for i
    using less_7_cases [OF that(1)] that(2) f unfolding rows
    by (auto simp: formatText_undefined formatDate_undefined formatMoney_undefined)
  show ?thesis
    using missing by (simp add: rows)
qed

lemma row_labels_distinct:
  "distinct [lbl_party_a, lbl_party_b, lbl_contract_number, lbl_sign_date,
        lbl_effective_date, lbl_expiry_date, lbl_contract_amount, lbl_stamp_pages]"
  "distinct [lbl_invoice_number, lbl_invoice_code, lbl_invoice_date, lbl_seller, lbl_buyer,
        lbl_invoice_amount, lbl_tax_amount]"
  by (simp_all add: row_label_defs)

text \<open>
  C3 fails on the code, by the defect of C2. For the invoice payload
  \<open>{seller: [{toString: null}]}\<close> and the contract payload \<open>{party_b: [{toString: "x"}]}\<close> the
  extractor throws and returns no rows, where seven and eight are claimed. (Whenever it
  returns, the rows are as claimed: \<open>contract_rows\<close>, \<open>invoice_rows\<close>, \<open>row_labels_distinct\<close>;
  and it returns unless a field given to \<open>formatText\<close> is such an array:
  \<open>getSummaryRows_returned\<close>.)
\<close>

theorem C3_rows_not_produced:
  "getSummaryRows pf Invoice (Some [(''seller'', JArr [JObj [(''toString'', JNull)]])])
     = Inl TypeError
   \<and> getSummaryRows pf Contract (Some [(''party_b'', JArr [JObj [(''toString'', JStr ''x'')]])])
     = Inl TypeError"
proof (intro conjI)
  show "getSummaryRows pf Invoice (Some [(''seller'', JArr [JObj [(''toString'', JNull)]])])
     = Inl TypeError"
    by (rule getSummaryRows_throws) (simp add: formattable_def)
  show "getSummaryRows pf Contract (Some [(''party_b'', JArr [JObj [(''toString'', JStr ''x'')]])])
     = Inl TypeError"
    by (rule getSummaryRows_throws) (simp add: formattable_def)
qed

subsection \<open>Money\<close>





lemma show_nat_nonempty: "show_nat n \<noteq> []"
  by (subst show_nat.simps) simp
















subsection \<open>Stamp pages\<close>

lemma round_half_even_of_int: "round_half_even (of_int z) = z"
  by (simp add: round_half_even_def)

lemma round_to_double_small_nat:
  assumes "0 < m" and "m < 2 ^ 53"
  shows "round_to_double (of_nat m) = of_nat m"
proof -
  define fl where "fl = floorlog 2 m"
  have fl_le: "fl \<le> 53"
    unfolding fl_def using assms by (intro floorlog_leI) simp_all
  have fl_ge: "1 \<le> fl"
    unfolding fl_def using assms floorlog_ge_SucI [of 2 0 m] by simp
  define k where "k = 53 - fl"
  have be: "binary_exponent (of_nat m) = int fl - 1"
    using assms by (simp add: binary_exponent_def fl_def)
  have e: "max (binary_exponent (of_nat m) - 52) (- 1074) = - int k"
    using fl_le fl_ge by (simp add: be k_def)
  have p: "pow2 (- int k) = 1 / 2 ^ k"
    by (cases "k = 0") (simp_all add: pow2_def)
  have "(of_nat m :: rat) / pow2 (- int k) = of_int (int (m * 2 ^ k))"
    by (simp add: p)
  then have r: "round_half_even ((of_nat m :: rat) / pow2 (- int k)) = int (m * 2 ^ k)"
    by (simp only: round_half_even_of_int)
  have "round_to_double (of_nat m) = sgn (of_nat m :: rat) * of_int (int (m * 2 ^ k)) * pow2 (- int k)"
    using assms(1) e r by (simp add: round_to_double_def Let_def)
  also have "\<dots> = of_nat m"
    using assms(1) by (simp add: p)
  finally show ?thesis .
qed

lemma is_safe_integer_nat: "m < 2 ^ 53 \<Longrightarrow> is_safe_integer (of_nat m)"
proof -
  assume "m < 2 ^ 53"
  then have "(of_nat m :: rat) < of_nat (2 ^ 53)"
    by (simp only: of_nat_less_iff)
  then show ?thesis by (simp add: is_safe_integer_def)
qed

lemma Number_toString_nat: "m < 2 ^ 53 \<Longrightarrow> Number_toString pf (of_nat m) = show_nat m"
  by (simp add: Number_toString_def is_safe_integer_nat)

lemma plus_one_nat:
  assumes "n + 1 < 2 ^ 53"
  shows "plus_one (JNum (of_nat n)) = Inr (JNum (of_nat (n + 1)))"
proof -
  have "round_to_double (of_nat (n + 1)) = of_nat (n + 1)"
    using assms by (intro round_to_double_small_nat) simp_all
  moreover have "(of_nat n :: rat) + 1 = of_nat (n + 1)"
    by simp
  ultimately have "round_to_double (of_nat n + 1) = of_nat (n + 1)"
    by (simp only:)
  then show ?thesis by (simp only: plus_one_def json.case)
qed

lemma collect_plus_one_nats:
  assumes "\<forall>n\<in>set ns. n + 1 < 2 ^ 53"
  shows "collect (map plus_one
           (filter (\<lambda>value. typeof (Some value) = ''number'') (map (\<lambda>n. JNum (of_nat n)) ns)))
         = Inr (map (\<lambda>n. JNum (of_nat (n + 1))) ns)"
  using assms
proof (induction ns)
  case Nil
  show ?case by simp
next
  case (Cons n ns)
  then show ?case by (simp add: plus_one_nat)
qed

lemma Array_join_nats:
  assumes "\<forall>n\<in>set ns. n + 1 < 2 ^ 53"
  shows "Array_join pf sep (map (\<lambda>n. JNum (of_nat (n + 1))) ns)
         = Inr (join_strings sep (map (\<lambda>n. show_nat (n + 1)) ns))"
proof -
  have "collect (map (\<lambda>e. if e = JNull then Inr [] else ToString_json pf e)
          (map (\<lambda>n. JNum (of_nat (n + 1))) ns))
        = Inr (map (\<lambda>n. show_nat (n + 1)) ns)"
    using assms by (induction ns) (simp_all add: Number_toString_nat del: of_nat_Suc of_nat_add)
  then show ?thesis by (simp only: Array_join_def sum.case)
qed

lemma join_strings_nonempty:
  "xs \<noteq> [] \<Longrightarrow> \<forall>x\<in>set xs. x \<noteq> [] \<Longrightarrow> join_strings sep xs \<noteq> []"
  by (induction sep xs rule: join_strings.induct) simp_all

lemma stampPages_nats:
  assumes "\<forall>n\<in>set ns. n + 1 < 2 ^ 53"
    and "map_of props ''stamp_pages'' = Some (JArr (map (\<lambda>n. JNum (of_nat n)) ns))"
  shows "stampPages pf (Some props) = Inr (join_strings '', '' (map (\<lambda>n. show_nat (n + 1)) ns))"
  using assms(2) collect_plus_one_nats [OF assms(1)] Array_join_nats [OF assms(1)]
  by (simp add: stampPages_def getProp_def Array_isArray_def as_array_def)

lemma stampPages_not_array:
  "\<not> Array_isArray (map_of props ''stamp_pages'') \<Longrightarrow> stampPages pf (Some props) = Inr ''-''"
  by (simp add: stampPages_def getProp_def)

lemma stamp_row:
  assumes "stampPages pf (Some props) = Inr sp"
    and "getSummaryRows pf Contract (Some props) = Inr rows"
  shows "length rows = 8
     \<and> rows ! 7 = \<lparr>row_label = lbl_stamp_pages, row_value = (if sp = [] then ''-'' else sp)\<rparr>"
  using contract_rows_shape [OF assms(2)] assms(1) by auto

text \<open>
  C7. When \<open>stamp_pages\<close> is an array of page indices (natural numbers \<open>n\<close> with \<open>n + 1\<close> below
  \<open>2^53\<close>, where adding one is exact), the value computed for the stamp-pages row is the
  numbers \<open>n + 1\<close> in decimal, joined by a comma and a space, and the last of the eight
  contract rows shows it; when the array is empty, or \<open>stamp_pages\<close> is no array or missing,
  the row shows \<open>"-"\<close>.
\<close>

theorem C7_stamp_pages:
  "((\<forall>n\<in>set ns. n + 1 < 2 ^ 53)
      \<and> map_of props ''stamp_pages'' = Some (JArr (map (\<lambda>n. JNum (of_nat n)) ns))
    \<longrightarrow> stampPages pf (Some props) = Inr (join_strings '', '' (map (\<lambda>n. show_nat (n + 1)) ns))
        \<and> (getSummaryRows pf Contract (Some props) = Inr rows
            \<longrightarrow> length rows = 8
                \<and> rows ! 7 =
                    \<lparr>row_label = lbl_stamp_pages,
                     row_value =
                       (if ns = [] then ''-''
                        else join_strings '', '' (map (\<lambda>n. show_nat (n + 1)) ns))\<rparr>))
   \<and> (\<not> Array_isArray (map_of props ''stamp_pages'')
    \<longrightarrow> stampPages pf (Some props) = Inr ''-''
        \<and> (getSummaryRows pf Contract (Some props) = Inr rows
            \<longrightarrow> length rows = 8
                \<and> rows ! 7 = \<lparr>row_label = lbl_stamp_pages, row_value = ''-''\<rparr>))"
proof (intro conjI impI)
  assume a: "(\<forall>n\<in>set ns. n + 1 < 2 ^ 53)
      \<and> map_of props ''stamp_pages'' = Some (JArr (map (\<lambda>n. JNum (of_nat n)) ns))"
  let ?sp = "join_strings '', '' (map (\<lambda>n. show_nat (n + 1)) ns)"
  from a show sp: "stampPages pf (Some props) = Inr ?sp"
    by (intro stampPages_nats) simp_all
  have e: "?sp = [] \<longleftrightarrow> ns = []"
  proof
    assume "?sp = []"
    show "ns = []"
    proof (rule ccontr)
      assume "ns \<noteq> []"
      then have "?sp \<noteq> []"
        by (intro join_strings_nonempty) (simp_all add: show_nat_nonempty)
      with \<open>?sp = []\<close> show False by simp
    qed
  qed simp
  assume r: "getSummaryRows pf Contract (Some props) = Inr rows"
  from stamp_row [OF sp r] show "length rows = 8" by simp
  from stamp_row [OF sp r] e
  show "rows ! 7 =
          \<lparr>row_label = lbl_stamp_pages,
           row_value =
             (if ns = [] then ''-''
              else join_strings '', '' (map (\<lambda>n. show_nat (n + 1)) ns))\<rparr>"
    by auto
next
  assume "\<not> Array_isArray (map_of props ''stamp_pages'')"
  then show sp: "stampPages pf (Some props) = Inr ''-''"
    by (rule stampPages_not_array)
  assume r: "getSummaryRows pf Contract (Some props) = Inr rows"
  from stamp_row [OF sp r] show "length rows = 8" by simp
  from stamp_row [OF sp r]
  show "rows ! 7 = \<lparr>row_label = lbl_stamp_pages, row_value = ''-''\<rparr>"
    by simp
qed

text \<open>The theorem at \<open>stamp_pages: [0, 2, 5]\<close>, and at a payload without \<open>stamp_pages\<close>.\<close>

theorem C7_stamp_pages_witness:
  "(\<exists>rows.
      getSummaryRows
        \<lparr>Date_parse = (\<lambda>s. None), toLocaleDateString = (\<lambda>t. []), shortest_digits = (\<lambda>x. []),
         StringToNumber = (\<lambda>s. None)\<rparr>
        Contract (Some [(''stamp_pages'', JArr [JNum 0, JNum 2, JNum 5])]) = Inr rows
      \<and> length rows = 8
      \<and> rows ! 7 = \<lparr>row_label = lbl_stamp_pages, row_value = ''1, 3, 6''\<rparr>)
   \<and> (\<exists>rows.
      getSummaryRows
        \<lparr>Date_parse = (\<lambda>s. None), toLocaleDateString = (\<lambda>t. []), shortest_digits = (\<lambda>x. []),
         StringToNumber = (\<lambda>s. None)\<rparr>
        Contract (Some [(''party_a'', JStr ''A Co'')]) = Inr rows
      \<and> length rows = 8
      \<and> rows ! 7 = \<lparr>row_label = lbl_stamp_pages, row_value = ''-''\<rparr>)"
proof -
  let ?pf = "\<lparr>Date_parse = (\<lambda>s. None), toLocaleDateString = (\<lambda>t. []), shortest_digits = (\<lambda>x. []),
         StringToNumber = (\<lambda>s. None)\<rparr>"
  let ?p1 = "[(''stamp_pages'', JArr [JNum 0, JNum 2, JNum 5])]"
  let ?p2 = "[(''party_a'', JStr ''A Co'')]"
  obtain rows1 where r1: "getSummaryRows ?pf Contract (Some ?p1) = Inr rows1"
    using contract_rows_returned [of ?p1 ?pf] by (auto simp: formattable_def)
  obtain rows2 where r2: "getSummaryRows ?pf Contract (Some ?p2) = Inr rows2"
    using contract_rows_returned [of ?p2 ?pf] by (auto simp: formattable_def)
  have "(\<forall>n\<in>set [0, 2, 5 :: nat]. n + 1 < 2 ^ 53)
      \<and> map_of ?p1 ''stamp_pages'' = Some (JArr (map (\<lambda>n. JNum (of_nat n)) [0, 2, 5 :: nat]))"
    by simp
  with C7_stamp_pages [of "[0, 2, 5]" ?p1 ?pf rows1] r1
  have "length rows1 = 8
      \<and> rows1 ! 7 = \<lparr>row_label = lbl_stamp_pages,
            row_value = (if [0, 2, 5 :: nat] = [] then ''-''
                  else join_strings '', '' (map (\<lambda>n. show_nat (n + 1)) [0, 2, 5 :: nat]))\<rparr>"
    by blast
  moreover have "(if [0, 2, 5 :: nat] = [] then ''-''
                  else join_strings '', '' (map (\<lambda>n. show_nat (n + 1)) [0, 2, 5 :: nat])) = ''1, 3, 6''"
    by (simp add: show_nat.simps digit_char_def)
  moreover have "\<not> Array_isArray (map_of ?p2 ''stamp_pages'')"
    by (simp add: Array_isArray_def)
  with C7_stamp_pages [of "[]" ?p2 ?pf rows2] r2
  have "length rows2 = 8
      \<and> rows2 ! 7 = \<lparr>row_label = lbl_stamp_pages, row_value = ''-''\<rparr>"
    by blast
  ultimately show ?thesis using r1 r2 by simp
qed

subsection \<open>Dates\<close>



subsection \<open>The JSON text read back\<close>











lemma fuel_of_pos: "0 < fuel_of v"
  by (cases v) simp_all












lemma join_strings_first:
  "join_strings sep ((c # t) # ss) = c # tl (join_strings sep ((c # t) # ss))"
  by (cases ss) simp_all


















end
